theory Spec2Isabelle
  imports Main
begin

section \<open>JavaScript values and their rendering\<close>

text \<open>
  The debug bridge of \<^verbatim>\<open>src/index.ts\<close> is a set of tool handlers over eight module-level
  variables. The handlers are embedded as functions from the session state and the
  answers of the target to a response, the actions performed and the new state.
  Numbers of the tool API and of the protocol are integers here; pause counters are
  natural numbers (JavaScript numbers are exact on integers below \<open>2^53\<close>).
\<close>

definition digit_char :: "nat \<Rightarrow> char" where
  "digit_char d =
     (if d = 0 then CHR ''0'' else if d = 1 then CHR ''1'' else if d = 2 then CHR ''2''
      else if d = 3 then CHR ''3'' else if d = 4 then CHR ''4'' else if d = 5 then CHR ''5''
      else if d = 6 then CHR ''6'' else if d = 7 then CHR ''7'' else if d = 8 then CHR ''8''
      else CHR ''9'')"

text \<open>Decimal rendering of a number inside a string concatenation or template literal.\<close>

fun show_nat :: "nat \<Rightarrow> string" where
  "show_nat n =
     (if n < 10 then [digit_char n] else show_nat (n div 10) @ [digit_char (n mod 10)])"

declare show_nat.simps [simp del]

definition show_int :: "int \<Rightarrow> string" where
  "show_int i = (if i < 0 then ''-'' @ show_nat (nat (- i)) else show_nat (nat i))"

text \<open>Primitive values carried by value in protocol objects; \<open>None\<close> stands for \<^verbatim>\<open>undefined\<close>.\<close>

datatype js_prim = PNull | PBool bool | PNum int | PStr string

definition js_typeof :: "js_prim \<Rightarrow> string" where
  "js_typeof v = (case v of PNull \<Rightarrow> ''object'' | PBool _ \<Rightarrow> ''boolean''
                  | PNum _ \<Rightarrow> ''number'' | PStr _ \<Rightarrow> ''string'')"

text \<open>Truthiness of an optional string: absent and empty strings are falsy.\<close>

definition truthy :: "string option \<Rightarrow> bool" where
  "truthy x = (case x of None \<Rightarrow> False | Some t \<Rightarrow> t \<noteq> [])"

text \<open>\<^verbatim>\<open>a || b\<close> on strings.\<close>

definition or_else :: "string \<Rightarrow> string \<Rightarrow> string" where
  "or_else a b = (if a \<noteq> [] then a else b)"

text \<open>The element of \<^verbatim>\<open>Array.prototype.join\<close>: null and undefined render as the empty string.\<close>

definition join_item :: "js_prim option \<Rightarrow> string" where
  "join_item v = (case v of None \<Rightarrow> [] | Some PNull \<Rightarrow> []
                  | Some (PBool b) \<Rightarrow> (if b then ''true'' else ''false'')
                  | Some (PNum n) \<Rightarrow> show_int n | Some (PStr t) \<Rightarrow> t)"

fun join_space :: "string list \<Rightarrow> string" where
  "join_space [] = []"
| "join_space [x] = x"
| "join_space (x # y # ys) = x @ '' '' @ join_space (y # ys)"

text \<open>\<^verbatim>\<open>s.startsWith(p)\<close>.\<close>

definition startsWith :: "string \<Rightarrow> string \<Rightarrow> bool" where
  "startsWith s p = (take (length p) s = p)"

section \<open>Protocol data\<close>

record remote_object =
  obj_type :: string
  objectId :: "string option"
  obj_value :: "js_prim option"
  description :: "string option"
  className :: "string option"

record property_descriptor =
  prop_name :: string
  prop_value :: "remote_object option"

record scope =
  scope_type :: string
  scope_object :: "remote_object option"

record location =
  scriptId :: string
  lineNumber :: int
  columnNumber :: "int option"

record call_frame =
  callFrameId :: string
  functionName :: string
  frame_url :: string
  frame_location :: location
  scopeChain :: "scope list"
  frame_this :: "remote_object option"

record pause_event =
  reason :: string
  callFrames :: "call_frame list"

datatype intake_event =
    ScriptParsed string string
  | ConsoleAPICalled string "remote_object list"

text \<open>The answer of the target to a command: the promise rejects with a message or resolves.\<close>

datatype 'a rpc = Rejected string | Reply 'a

datatype cdp_command =
    DebuggerEnable
  | RuntimeEnable
  | RunIfWaitingForDebugger
  | SetBreakpointByUrl "string option" "string option" int int "string option"
  | SetPauseOnExceptions string
  | SetBlackboxPatterns "string list"
  | GetScriptSource string
  | ContinueToLocation string int int
  | RestartFrame string
  | GetProperties string
  | Resume
  | StepOver
  | StepInto
  | StepOut
  | EvaluateOnCallFrame string string bool

text \<open>
  What a handler does to the outside, in order: spawning and killing the child, opening
  and closing the client, sending a command, and minting a pause id
  (\<^verbatim>\<open>'p' + ++pauseCounter\<close>).
\<close>

datatype effect =
    Spawn string
  | Connect
  | Sent cdp_command
  | Kill
  | Close
  | Minted string

section \<open>Session state\<close>

text \<open>
  The two bodies of the \<^verbatim>\<open>Debugger.paused\<close> callbacks in the source: the one registered by
  \<^verbatim>\<open>start_node_debug\<close> only records the event, the one registered by every
  execution-control tool also mints a pause id. A callback is never unsubscribed.
\<close>

datatype paused_listener = StartListener | ControlListener

record client =
  pausedListeners :: "paused_listener list"
  intakeInstalled :: bool

datatype child_process = ChildProcess nat

text \<open>
  The module-level variables. \<open>scriptIdToUrl\<close> is kept as an association list in the
  enumeration order of \<^verbatim>\<open>Object.keys\<close>; lookups of property names inherited from
  \<^verbatim>\<open>Object.prototype\<close> are outside the model.
\<close>

record session =
  nodeDebugClient :: "client option"
  nodeProcess :: "child_process option"
  scriptIdToUrl :: "(string \<times> string) list"
  consoleMessages :: "string list"
  lastPausedParams :: "pause_event option"
  pauseCounter :: nat
  pauseMap :: "string \<rightharpoonup> pause_event"
  currentPauseId :: "string option"

definition initial_session :: session where
  "initial_session =
     \<lparr>nodeDebugClient = None, nodeProcess = None, scriptIdToUrl = [], consoleMessages = [],
      lastPausedParams = None, pauseCounter = 0, pauseMap = Map.empty, currentPauseId = None\<rparr>"

definition new_client :: client where
  "new_client = \<lparr>pausedListeners = [], intakeInstalled = False\<rparr>"

text \<open>\<^verbatim>\<open>scriptIdToUrl[sid] || fallback\<close> and \<^verbatim>\<open>scriptIdToUrl[scriptId] = url\<close>.\<close>

definition script_url :: "session \<Rightarrow> string \<Rightarrow> string" where
  "script_url s sid = (case map_of (scriptIdToUrl s) sid of None \<Rightarrow> [] | Some u \<Rightarrow> u)"

fun set_script :: "string \<Rightarrow> string \<Rightarrow> (string \<times> string) list \<Rightarrow> (string \<times> string) list" where
  "set_script k v [] = [(k, v)]"
| "set_script k v ((k', v') # kvs) =
     (if k = k' then (k, v) # kvs else (k', v') # set_script k v kvs)"

text \<open>\<^verbatim>\<open>Object.keys(scriptIdToUrl).find((k) => scriptIdToUrl[k] === url)\<close>.\<close>

definition find_script :: "session \<Rightarrow> string \<Rightarrow> string option" where
  "find_script s u = map_option fst (find (\<lambda>kv. snd kv = u) (scriptIdToUrl s))"

text \<open>The \<^verbatim>\<open>scriptParsed\<close> and \<^verbatim>\<open>consoleAPICalled\<close> callbacks installed by the start tool.\<close>

definition console_arg :: "remote_object \<Rightarrow> string" where
  "console_arg a =
     (case obj_value a of Some v \<Rightarrow> join_item (Some v)
      | None \<Rightarrow> (case description a of None \<Rightarrow> [] | Some d \<Rightarrow> d))"

fun intake :: "intake_event \<Rightarrow> session \<Rightarrow> session" where
  "intake (ScriptParsed sid u) s =
     (if u \<noteq> [] then s\<lparr>scriptIdToUrl := set_script sid u (scriptIdToUrl s)\<rparr> else s)"
| "intake (ConsoleAPICalled ty args) s =
     s\<lparr>consoleMessages :=
         consoleMessages s @ [''['' @ ty @ ''] '' @ join_space (map console_arg args)]\<rparr>"

definition deliver :: "intake_event list \<Rightarrow> session \<Rightarrow> session" where
  "deliver evs s =
     (case nodeDebugClient s of
        None \<Rightarrow> s
      | Some c \<Rightarrow> if intakeInstalled c then fold intake evs s else s)"

text \<open>The pause id for a counter value: \<^verbatim>\<open>'p' + n\<close>.\<close>

definition pause_id :: "nat \<Rightarrow> string" where
  "pause_id n = ''p'' @ show_nat n"

text \<open>
  The three statements shared by the start tool and by every control callback:
  \<^verbatim>\<open>currentPauseId = 'p' + ++pauseCounter; pauseMap[currentPauseId] = ev\<close>.
\<close>

definition mint_pause :: "pause_event \<Rightarrow> session \<Rightarrow> effect list \<times> session" where
  "mint_pause ev s =
     (let c = Suc (pauseCounter s); pid = pause_id c
      in ([Minted pid],
          s\<lparr>pauseCounter := c, currentPauseId := Some pid, pauseMap := (pauseMap s)(pid \<mapsto> ev)\<rparr>))"

fun run_listener :: "paused_listener \<Rightarrow> pause_event \<Rightarrow> session \<Rightarrow> effect list \<times> session" where
  "run_listener StartListener ev s = ([], s\<lparr>lastPausedParams := Some ev\<rparr>)"
| "run_listener ControlListener ev s = mint_pause ev (s\<lparr>lastPausedParams := Some ev\<rparr>)"

fun run_listeners :: "paused_listener list \<Rightarrow> pause_event \<Rightarrow> session \<Rightarrow> effect list \<times> session" where
  "run_listeners [] ev s = ([], s)"
| "run_listeners (l # ls) ev s =
     (case run_listener l ev s of
        (e1, s1) \<Rightarrow> (case run_listeners ls ev s1 of (e2, s2) \<Rightarrow> (e1 @ e2, s2)))"

text \<open>A \<^verbatim>\<open>Debugger.paused\<close> event: the client runs its callbacks in registration order.\<close>

definition dispatch_paused :: "pause_event \<Rightarrow> session \<Rightarrow> effect list \<times> session" where
  "dispatch_paused ev s =
     (case nodeDebugClient s of
        None \<Rightarrow> ([], s)
      | Some c \<Rightarrow> run_listeners (pausedListeners c) ev s)"

text \<open>\<^verbatim>\<open>nodeDebugClient.Debugger.paused(callback)\<close>.\<close>

definition register_paused :: "paused_listener \<Rightarrow> session \<Rightarrow> session" where
  "register_paused l s =
     s\<lparr>nodeDebugClient :=
         map_option (\<lambda>c. c\<lparr>pausedListeners := pausedListeners c @ [l]\<rparr>) (nodeDebugClient s)\<rparr>"

section \<open>Responses\<close>

record frame_summary =
  fs_functionName :: "string option"
  fs_url :: string
  fs_line :: int
  fs_column :: int

text \<open>\<^verbatim>\<open>p.value?.value ?? p.value?.description\<close>: a primitive value or a description.\<close>

datatype shown = Prim js_prim | Desc string

record variable =
  var_name :: string
  var_type :: "string option"
  var_value :: "shown option"
  var_objectId :: "string option"

text \<open>The result of \<^verbatim>\<open>summarizeValue\<close> in \<^verbatim>\<open>inspect_scopes\<close>.\<close>

datatype value_summary =
    VUndefined
  | VPrim string js_prim
  | VRef string "string option" "string option" "string option"

text \<open>A listed scope; \<open>truncated = False\<close> stands for an entry without the flag.\<close>

record 'v scope_listing =
  sl_type :: string
  variables :: "'v list"
  truncated :: bool

record pause_payload =
  status :: string
  pauseId :: "string option"
  frame :: frame_summary
  consoleOutput :: "string list option"
  stack :: "frame_summary list option"
  scopes :: "variable scope_listing list option"

record this_summary =
  this_value :: value_summary
  preview :: "(string \<times> value_summary) list option"

record bp_reply =
  breakpointId :: string
  locations :: "location list"

datatype payload =
    PausePayload pause_payload
  | StatusPayload string
  | BreakpointPayload string "location list" bool
  | OkState string
  | OkPatterns "string list"
  | ScriptsPayload "(string \<times> string) list"
  | ScriptSourcePayload string "string option" string
  | PropertiesPayload "variable list"
  | ConsolePayload "string list"
  | EvalPayload shown "string list"
  | ScopesPayload frame_summary "this_summary option" "(string \<times> value_summary) scope_listing list"
  | StackPayload "(frame_summary \<times> string option) list" "string option"
  | PauseInfoPayload string "string option" frame_summary "string list"

text \<open>
  A tool response: an error text with \<^verbatim>\<open>isError: true\<close>, a plain text block, the
  \<^verbatim>\<open>mcpContent\<close> encoding of a payload (the \<^verbatim>\<open>format\<close> parameter only selects the JSON
  layout and is left out), or an exception that leaves the handler uncaught.
\<close>

datatype response = ErrorText string | PlainText string | Content payload | Thrown string

record outcome =
  response :: response
  effects :: "effect list"
  after :: session

definition reply :: "response \<Rightarrow> effect list \<Rightarrow> session \<Rightarrow> outcome" where
  "reply r es s = \<lparr>response = r, effects = es, after = s\<rparr>"

text \<open>The fixed error texts of the source.\<close>

definition no_session :: response where
  "no_session = ErrorText ''Error: No active debug session.''"

definition no_pause :: response where
  "no_pause = ErrorText ''Error: No active pause state.''"

definition invalid_pause :: response where
  "invalid_pause = ErrorText ''Error: Invalid pauseId.''"

definition invalid_frame :: response where
  "invalid_frame = ErrorText ''Error: Invalid frame index.''"

definition missing_locator :: response where
  "missing_locator = ErrorText ''Error: Provide filePath or urlRegex.''"

definition start_failed :: "string \<Rightarrow> response" where
  "start_failed cause = ErrorText (''Error: Failed to start debug session - '' @ cause)"

text \<open>The message of the runtime's TypeError for a property read on \<^verbatim>\<open>undefined\<close>.\<close>

definition type_error :: "string \<Rightarrow> string" where
  "type_error prop =
     ''Cannot read properties of undefined (reading '' @ [CHR 0x27] @ prop @ [CHR 0x27] @ '')''"

section \<open>Helpers of the handlers\<close>

text \<open>\<^verbatim>\<open>summarizeFrame\<close>, lines 28-36.\<close>

definition summarizeFrame :: "session \<Rightarrow> call_frame \<Rightarrow> frame_summary" where
  "summarizeFrame s fr =
     \<lparr>fs_functionName = (if functionName fr \<noteq> [] then Some (functionName fr) else None),
      fs_url = or_else (frame_url fr)
                 (or_else (script_url s (scriptId (frame_location fr))) ''<unknown>''),
      fs_line = lineNumber (frame_location fr) + 1,
      fs_column = (case columnNumber (frame_location fr) of None \<Rightarrow> 0 | Some c \<Rightarrow> c) + 1\<rparr>"

text \<open>\<^verbatim>\<open>p.startsWith('file://') ? p : 'file://' + p\<close>.\<close>

definition file_url :: "string \<Rightarrow> string" where
  "file_url p = (if startsWith p ''file://'' then p else ''file://'' @ p)"

definition nth_opt :: "'a list \<Rightarrow> nat \<Rightarrow> 'a option" where
  "nth_opt xs i = (if i < length xs then Some (xs ! i) else None)"

text \<open>\<^verbatim>\<open>params.pauseId ? pauseMap[params.pauseId] : lastPausedParams\<close>.\<close>

definition select_pause :: "string option \<Rightarrow> session \<Rightarrow> pause_event option" where
  "select_pause pid s = (if truthy pid then pauseMap s (the pid) else lastPausedParams s)"

text \<open>The object id of a scope that the loops do not skip.\<close>

definition scope_handle :: "scope \<Rightarrow> string option" where
  "scope_handle sc =
     (case scope_object sc of
        None \<Rightarrow> None
      | Some ob \<Rightarrow> (if truthy (objectId ob) then objectId ob else None))"

definition summarize_property :: "property_descriptor \<Rightarrow> variable" where
  "summarize_property p =
     (case prop_value p of
        None \<Rightarrow> \<lparr>var_name = prop_name p, var_type = None, var_value = None, var_objectId = None\<rparr>
      | Some ob \<Rightarrow>
          \<lparr>var_name = prop_name p, var_type = Some (obj_type ob),
           var_value = (case obj_value ob of
                          Some v \<Rightarrow> (if v \<noteq> PNull then Some (Prim v)
                                     else map_option Desc (description ob))
                        | None \<Rightarrow> map_option Desc (description ob)),
           var_objectId = objectId ob\<rparr>)"

text \<open>
  The scope loop of the four tools \<^verbatim>\<open>resume_execution\<close>, \<^verbatim>\<open>step_over\<close>, \<^verbatim>\<open>step_into\<close>
  and \<^verbatim>\<open>step_out\<close>: one \<^verbatim>\<open>Runtime.getProperties\<close> per scope with an object id,
  \<^verbatim>\<open>slice(0, 15)\<close> of its result. A rejection ends the loop with the message.
\<close>

fun build_scopes ::
  "(string \<Rightarrow> property_descriptor list rpc) \<Rightarrow> scope list
     \<Rightarrow> effect list \<times> (string + variable scope_listing list)" where
  "build_scopes gp [] = ([], Inr [])"
| "build_scopes gp (sc # scs) =
     (case scope_handle sc of
        None \<Rightarrow> build_scopes gp scs
      | Some oid \<Rightarrow>
          (case gp oid of
             Rejected m \<Rightarrow> ([Sent (GetProperties oid)], Inl m)
           | Reply props \<Rightarrow>
               (case build_scopes gp scs of
                  (es, Inl m) \<Rightarrow> (Sent (GetProperties oid) # es, Inl m)
                | (es, Inr rest) \<Rightarrow>
                    (Sent (GetProperties oid) # es,
                     Inr (\<lparr>sl_type = scope_type sc,
                           variables = map summarize_property (take 15 props),
                           truncated = False\<rparr> # rest)))))"

text \<open>\<^verbatim>\<open>summarizeValue\<close> and \<^verbatim>\<open>listProps\<close> of \<^verbatim>\<open>inspect_scopes\<close>, lines 872-881.\<close>

definition summarizeValue :: "remote_object option \<Rightarrow> value_summary" where
  "summarizeValue v =
     (case v of
        None \<Rightarrow> VUndefined
      | Some ob \<Rightarrow>
          (case obj_value ob of
             Some x \<Rightarrow> VPrim (js_typeof x) x
           | None \<Rightarrow> VRef (obj_type ob) (description ob) (className ob) (objectId ob)))"

definition listProps :: "nat \<Rightarrow> property_descriptor list \<Rightarrow> (string \<times> value_summary) list" where
  "listProps maxProps result =
     map (\<lambda>p. (prop_name p, summarizeValue (prop_value p))) (take maxProps result)"

text \<open>The scope loop of \<^verbatim>\<open>inspect_scopes\<close>, lines 882-892.\<close>

fun inspect_loop ::
  "nat \<Rightarrow> (string \<Rightarrow> property_descriptor list rpc) \<Rightarrow> scope list
     \<Rightarrow> effect list \<times> (string + (string \<times> value_summary) scope_listing list)" where
  "inspect_loop maxProps gp [] = ([], Inr [])"
| "inspect_loop maxProps gp (sc # scs) =
     (case scope_handle sc of
        None \<Rightarrow> inspect_loop maxProps gp scs
      | Some oid \<Rightarrow>
          (case gp oid of
             Rejected m \<Rightarrow> ([Sent (GetProperties oid)], Inl m)
           | Reply result \<Rightarrow>
               (case inspect_loop maxProps gp scs of
                  (es, Inl m) \<Rightarrow> (Sent (GetProperties oid) # es, Inl m)
                | (es, Inr rest) \<Rightarrow>
                    (Sent (GetProperties oid) # es,
                     Inr ((if scope_type sc = ''global''
                           then \<lparr>sl_type = scope_type sc,
                                 variables = take 5 (listProps maxProps result),
                                 truncated = True\<rparr>
                           else \<lparr>sl_type = scope_type sc,
                                 variables = listProps maxProps result,
                                 truncated = False\<rparr>) # rest)))))"

section \<open>Logpoint conditions\<close>

definition backtick :: char where "backtick = CHR 0x60"
definition backslash :: char where "backslash = CHR 0x5C"

text \<open>\<^verbatim>\<open>msg.replace(/`/g, '\\`')\<close>: a backslash before every backtick.\<close>

definition escape_backticks :: "string \<Rightarrow> string" where
  "escape_backticks msg = concat (map (\<lambda>c. if c = backtick then [backslash, backtick] else [c]) msg)"

text \<open>
  \<^verbatim>\<open>.replace(/\{([^}]+)\}/g, '${$1}')\<close>: scanning from the left, an opening brace followed
  by at least one character other than a closing brace and then a closing brace is
  replaced by \<^verbatim>\<open>${\<close>, the characters, \<^verbatim>\<open>}\<close>; the scan goes on after the closing brace.
\<close>

function interpolate :: "string \<Rightarrow> string" where
  "interpolate [] = []"
| "interpolate (c # cs) =
     (if c = CHR ''{'' \<and> takeWhile (\<lambda>x. x \<noteq> CHR ''}'') cs \<noteq> []
         \<and> dropWhile (\<lambda>x. x \<noteq> CHR ''}'') cs \<noteq> []
      then ''${'' @ takeWhile (\<lambda>x. x \<noteq> CHR ''}'') cs @ ''}''
             @ interpolate (tl (dropWhile (\<lambda>x. x \<noteq> CHR ''}'') cs))
      else c # interpolate cs)"
  by pat_completeness auto
termination
proof (relation "measure length")
  show "wf (measure length)" by simp
next
  fix c :: char and cs :: string
  have "length (tl (dropWhile (\<lambda>x. x \<noteq> CHR ''}'') cs)) \<le> length cs"
    using length_dropWhile_le [of "\<lambda>x. x \<noteq> CHR ''}''" cs] by simp
  then show "(tl (dropWhile (\<lambda>x. x \<noteq> CHR ''}'') cs), c # cs) \<in> measure length"
    by simp
next
  fix c :: char and cs :: string
  show "(cs, c # cs) \<in> measure length" by simp
qed

text \<open>\<^verbatim>\<open>toCondition\<close>, lines 243-247.\<close>

definition toCondition :: "string \<Rightarrow> string" where
  "toCondition msg =
     ''console.log('' @ ([backtick] @ interpolate (escape_backticks msg) @ [backtick])
       @ ''); false''"

section \<open>Session lifecycle\<close>

text \<open>
  What the target does while \<^verbatim>\<open>start_node_debug\<close> runs: the child exits before printing
  an inspector URL, the connection fails, an enable command is rejected, or the first
  \<^verbatim>\<open>Debugger.paused\<close> event arrives after the listed intake events. The rejection of
  \<^verbatim>\<open>Runtime.runIfWaitingForDebugger\<close> is swallowed by the source and has no case.
\<close>

datatype start_outcome =
    LauncherExitedEarly
  | ConnectFailed string
  | DebuggerEnableFailed string
  | RuntimeEnableFailed string
  | InitialPause "intake_event list" pause_event

text \<open>\<^verbatim>\<open>start_node_debug\<close>, lines 57-149.\<close>

definition start_node_debug :: "string \<Rightarrow> child_process \<Rightarrow> start_outcome \<Rightarrow> session \<Rightarrow> outcome" where
  "start_node_debug scriptPath child oc s =
     (if nodeDebugClient s \<noteq> None
      then reply (ErrorText ''Error: A debug session is already active.'') [] s
      else
        let s1 = s\<lparr>nodeProcess := Some child\<rparr>;
            s2 = register_paused StartListener (s1\<lparr>nodeDebugClient := Some new_client\<rparr>)
        in case oc of
             LauncherExitedEarly \<Rightarrow>
               reply (start_failed ''Node process exited before debugger attached'')
                 [Spawn scriptPath] s1
           | ConnectFailed m \<Rightarrow> reply (start_failed m) [Spawn scriptPath, Connect] s1
           | DebuggerEnableFailed m \<Rightarrow>
               reply (start_failed m) [Spawn scriptPath, Connect, Sent DebuggerEnable] s2
           | RuntimeEnableFailed m \<Rightarrow>
               reply (start_failed m)
                 [Spawn scriptPath, Connect, Sent DebuggerEnable, Sent RuntimeEnable] s2
           | InitialPause evs ev \<Rightarrow>
               let es = [Spawn scriptPath, Connect, Sent DebuggerEnable, Sent RuntimeEnable,
                         Sent RunIfWaitingForDebugger];
                   s3 = s2\<lparr>scriptIdToUrl := [], consoleMessages := []\<rparr>;
                   s4 = s3\<lparr>nodeDebugClient :=
                             map_option (\<lambda>c. c\<lparr>intakeInstalled := True\<rparr>) (nodeDebugClient s3)\<rparr>;
                   s5 = deliver evs s4
               in case dispatch_paused ev s5 of
                    (ed, s6) \<Rightarrow>
                      (case callFrames ev of
                         [] \<Rightarrow> reply (start_failed (type_error ''location'')) (es @ ed) s6
                       | callFrame # _ \<Rightarrow>
                           let fileUrl = or_else (script_url s6 (scriptId (frame_location callFrame)))
                                           (or_else (frame_url callFrame) ''<unknown>'');
                               line = lineNumber (frame_location callFrame) + 1;
                               s7 = s6\<lparr>consoleMessages := [], lastPausedParams := Some ev\<rparr>
                           in case mint_pause ev s7 of
                                (em, s8) \<Rightarrow>
                                  reply (Content (PausePayload
                                    \<lparr>status = ''Debugger attached. Paused at '' @ fileUrl @ '':''
                                        @ show_int line @ '' (reason: '' @ reason ev @ '').'',
                                     pauseId = currentPauseId s8,
                                     frame = summarizeFrame s8 callFrame,
                                     consoleOutput = None, stack = None, scopes = None\<rparr>))
                                    (es @ ed @ em) s8))"

text \<open>
  \<^verbatim>\<open>stop_debug_session\<close>, lines 995-1027. The argument is the answer of
  \<^verbatim>\<open>nodeDebugClient.close()\<close>, which is awaited inside the \<^verbatim>\<open>try\<close>.
\<close>

definition stop_debug_session :: "unit rpc \<Rightarrow> session \<Rightarrow> outcome" where
  "stop_debug_session closing s =
     (let e1 = (if nodeProcess s \<noteq> None then [Kill] else []);
          s1 = s\<lparr>nodeProcess := None\<rparr>;
          cleared = \<lambda>t. t\<lparr>scriptIdToUrl := [], consoleMessages := [], lastPausedParams := None,
                          pauseMap := Map.empty, currentPauseId := None, pauseCounter := 0\<rparr>
      in case nodeDebugClient s1 of
           None \<Rightarrow> reply (PlainText ''Debug session terminated.'') e1 (cleared s1)
         | Some _ \<Rightarrow>
             (case closing of
                Rejected m \<Rightarrow>
                  reply (ErrorText (''Error: Failed to stop debug session - '' @ m)) (e1 @ [Close]) s1
              | Reply _ \<Rightarrow>
                  reply (PlainText ''Debug session terminated.'') (e1 @ [Close])
                    (cleared (s1\<lparr>nodeDebugClient := None\<rparr>))))"

section \<open>Breakpoint tools\<close>

text \<open>\<^verbatim>\<open>set_breakpoint\<close>, lines 160-197.\<close>

definition set_breakpoint :: "string \<Rightarrow> int \<Rightarrow> bp_reply rpc \<Rightarrow> session \<Rightarrow> outcome" where
  "set_breakpoint path ln target s =
     (if nodeDebugClient s = None then reply no_session [] s
      else
        let cmd = SetBreakpointByUrl (Some (file_url path)) None (ln - 1) 0 None
        in case target of
             Rejected m \<Rightarrow>
               reply (ErrorText (''Error: Failed to set breakpoint - '' @ m)) [Sent cmd] s
           | Reply r \<Rightarrow>
               reply (PlainText (''Breakpoint set at '' @ path @ '':'' @ show_int ln
                        @ '' (ID: '' @ breakpointId r @ '').''))
                 [Sent cmd] s)"

record bp_params =
  filePath :: "string option"
  urlRegex :: "string option"
  line :: int
  column :: "int option"

text \<open>\<^verbatim>\<open>set_breakpoint_condition\<close>, lines 210-228.\<close>

definition set_breakpoint_condition :: "bp_params \<Rightarrow> string \<Rightarrow> bp_reply rpc \<Rightarrow> session \<Rightarrow> outcome" where
  "set_breakpoint_condition params cond target s =
     (if nodeDebugClient s = None then reply no_session [] s
      else
        let lineNo = line params - 1;
            col = (case column params of None \<Rightarrow> 0 | Some c \<Rightarrow> c);
            finish = (\<lambda>cmd. case target of
                        Rejected m \<Rightarrow>
                          reply (ErrorText (''Error: Failed to set conditional breakpoint - '' @ m))
                            [Sent cmd] s
                      | Reply r \<Rightarrow>
                          reply (Content (BreakpointPayload (breakpointId r) (locations r) False))
                            [Sent cmd] s)
        in if truthy (urlRegex params)
           then finish (SetBreakpointByUrl None (urlRegex params) lineNo col (Some cond))
           else if truthy (filePath params)
           then finish (SetBreakpointByUrl (Some (file_url (the (filePath params)))) None
                          lineNo col (Some cond))
           else reply missing_locator [] s)"

text \<open>\<^verbatim>\<open>add_logpoint\<close>, lines 241-265.\<close>

definition add_logpoint :: "bp_params \<Rightarrow> string \<Rightarrow> bp_reply rpc \<Rightarrow> session \<Rightarrow> outcome" where
  "add_logpoint params message target s =
     (if nodeDebugClient s = None then reply no_session [] s
      else
        let cond = toCondition message;
            lineNo = line params - 1;
            col = (case column params of None \<Rightarrow> 0 | Some c \<Rightarrow> c);
            finish = (\<lambda>cmd. case target of
                        Rejected m \<Rightarrow>
                          reply (ErrorText (''Error: Failed to add logpoint - '' @ m)) [Sent cmd] s
                      | Reply r \<Rightarrow>
                          reply (Content (BreakpointPayload (breakpointId r) (locations r) True))
                            [Sent cmd] s)
        in if truthy (urlRegex params)
           then finish (SetBreakpointByUrl None (urlRegex params) lineNo col (Some cond))
           else if truthy (filePath params)
           then finish (SetBreakpointByUrl (Some (file_url (the (filePath params)))) None
                          lineNo col (Some cond))
           else reply missing_locator [] s)"

text \<open>\<^verbatim>\<open>set_exception_breakpoints\<close> and \<^verbatim>\<open>blackbox_scripts\<close>, lines 271-293.\<close>

definition set_exception_breakpoints :: "string \<Rightarrow> unit rpc \<Rightarrow> session \<Rightarrow> outcome" where
  "set_exception_breakpoints st target s =
     (if nodeDebugClient s = None then reply no_session [] s
      else case target of
             Rejected m \<Rightarrow>
               reply (ErrorText (''Error: Failed to set exception breakpoints - '' @ m))
                 [Sent (SetPauseOnExceptions st)] s
           | Reply _ \<Rightarrow> reply (Content (OkState st)) [Sent (SetPauseOnExceptions st)] s)"

definition blackbox_scripts :: "string list \<Rightarrow> unit rpc \<Rightarrow> session \<Rightarrow> outcome" where
  "blackbox_scripts patterns target s =
     (if nodeDebugClient s = None then reply no_session [] s
      else case target of
             Rejected m \<Rightarrow>
               reply (ErrorText (''Error: Failed to set blackbox patterns - '' @ m))
                 [Sent (SetBlackboxPatterns patterns)] s
           | Reply _ \<Rightarrow> reply (Content (OkPatterns patterns)) [Sent (SetBlackboxPatterns patterns)] s)"

section \<open>Catalog tools\<close>

text \<open>\<^verbatim>\<open>list_scripts\<close>, lines 299-302, and \<^verbatim>\<open>read_console\<close>, lines 405-409.\<close>

definition list_scripts :: "session \<Rightarrow> outcome" where
  "list_scripts s = reply (Content (ScriptsPayload (scriptIdToUrl s))) [] s"

definition read_console :: "session \<Rightarrow> outcome" where
  "read_console s =
     reply (Content (ConsolePayload (consoleMessages s))) [] (s\<lparr>consoleMessages := []\<rparr>)"

text \<open>\<^verbatim>\<open>get_script_source\<close>, lines 308-321.\<close>

definition get_script_source :: "string option \<Rightarrow> string option \<Rightarrow> string rpc \<Rightarrow> session \<Rightarrow> outcome" where
  "get_script_source sid_param url_param target s =
     (if nodeDebugClient s = None then reply no_session [] s
      else
        let sid = (if \<not> truthy sid_param \<and> truthy url_param
                   then find_script s (the url_param) else sid_param)
        in if \<not> truthy sid then reply (ErrorText ''Error: Provide scriptId or url.'') [] s
           else case target of
                  Rejected m \<Rightarrow>
                    reply (ErrorText (''Error: Failed to get script source - '' @ m))
                      [Sent (GetScriptSource (the sid))] s
                | Reply src \<Rightarrow>
                    reply (Content (ScriptSourcePayload (the sid)
                             (if script_url s (the sid) \<noteq> [] then Some (script_url s (the sid))
                              else None) src))
                      [Sent (GetScriptSource (the sid))] s)"

text \<open>\<^verbatim>\<open>get_object_properties\<close>, lines 390-399.\<close>

definition get_object_properties ::
  "string \<Rightarrow> nat option \<Rightarrow> property_descriptor list rpc \<Rightarrow> session \<Rightarrow> outcome" where
  "get_object_properties oid maxProps target s =
     (if nodeDebugClient s = None then reply no_session [] s
      else case target of
             Rejected m \<Rightarrow>
               reply (ErrorText (''Error: Failed to get object properties - '' @ m))
                 [Sent (GetProperties oid)] s
           | Reply result \<Rightarrow>
               reply (Content (PropertiesPayload
                        (map summarize_property
                           (take (case maxProps of None \<Rightarrow> 50 | Some n \<Rightarrow> n) result))))
                 [Sent (GetProperties oid)] s)"

section \<open>Execution-control tools\<close>

text \<open>
  What happens after the continue-command of a tool: the command is rejected, the
  \<^verbatim>\<open>paused\<close> promise wins the race, or the \<^verbatim>\<open>exit\<close> promise wins it (with the exit code
  of the child and the answer of \<^verbatim>\<open>nodeDebugClient.close()\<close>). Intake events delivered
  while the handler waits come first.
\<close>

datatype race_outcome =
    CommandRejected string
  | PausedFirst "intake_event list" pause_event
  | ExitedFirst "intake_event list" "int option" "unit rpc"

record options =
  includeScopes :: bool
  includeStack :: bool
  includeConsole :: bool

definition show_exit :: "int option \<Rightarrow> string" where
  "show_exit code = (case code of None \<Rightarrow> ''null'' | Some n \<Rightarrow> show_int n)"

definition failed :: "string \<Rightarrow> string \<Rightarrow> response" where
  "failed label m = ErrorText (''Error: '' @ label @ '' failed - '' @ m)"

text \<open>
  The branch \<^verbatim>\<open>if (result && typeof result === 'object')\<close> of \<^verbatim>\<open>resume_execution\<close>
  (lines 443-476), \<^verbatim>\<open>step_over\<close> (532-567), \<^verbatim>\<open>step_into\<close> (628-659) and \<^verbatim>\<open>step_out\<close>
  (720-751): the same text in the four handlers, up to the label of the error.
\<close>

definition pause_context ::
  "string \<Rightarrow> options \<Rightarrow> (string \<Rightarrow> property_descriptor list rpc) \<Rightarrow> pause_event
     \<Rightarrow> effect list \<Rightarrow> session \<Rightarrow> outcome" where
  "pause_context label opts gp ev es s =
     (case callFrames ev of
        [] \<Rightarrow> reply (failed label (type_error ''url'')) es s
      | topFrame # _ \<Rightarrow>
          let fileUrl = or_else (frame_url topFrame)
                          (or_else (script_url s (scriptId (frame_location topFrame))) ''<unknown>'');
              ln = lineNumber (frame_location topFrame) + 1;
              output = consoleMessages s;
              s1 = s\<lparr>consoleMessages := []\<rparr>;
              base = \<lparr>status = ''Paused at '' @ fileUrl @ '':'' @ show_int ln
                                @ '' (reason: '' @ reason ev @ '')'',
                      pauseId = currentPauseId s1,
                      frame = summarizeFrame s1 topFrame,
                      consoleOutput = (if includeConsole opts then Some output else None),
                      stack = (if includeStack opts
                               then Some (map (summarizeFrame s1) (callFrames ev)) else None),
                      scopes = None\<rparr>
          in if includeScopes opts
             then (case build_scopes gp (scopeChain topFrame) of
                     (eg, Inl m) \<Rightarrow> reply (failed label m) (es @ eg) s1
                   | (eg, Inr scs) \<Rightarrow>
                       reply (Content (PausePayload (base\<lparr>scopes := Some scs\<rparr>))) (es @ eg) s1)
             else reply (Content (PausePayload base)) es s1)"

definition completion_text :: "int option \<Rightarrow> string" where
  "completion_text code =
     ''Execution resumed until completion. Process exited with code '' @ show_exit code @ ''.''"

text \<open>\<^verbatim>\<open>resume_execution\<close>, lines 422-500.\<close>

definition resume_execution ::
  "options \<Rightarrow> race_outcome \<Rightarrow> (string \<Rightarrow> property_descriptor list rpc) \<Rightarrow> session \<Rightarrow> outcome" where
  "resume_execution opts race gp s =
     (if nodeDebugClient s = None then reply no_session [] s
      else
        let s1 = register_paused ControlListener s
        in case race of
             CommandRejected m \<Rightarrow> reply (failed ''Resume'' m) [Sent Resume] s1
           | PausedFirst evs ev \<Rightarrow>
               (case dispatch_paused ev (deliver evs s1) of
                  (ed, s2) \<Rightarrow> pause_context ''Resume'' opts gp ev (Sent Resume # ed) s2)
           | ExitedFirst evs code closing \<Rightarrow>
               (case closing of
                  Rejected m \<Rightarrow> reply (failed ''Resume'' m) [Sent Resume, Close] (deliver evs s1)
                | Reply _ \<Rightarrow>
                    reply (Content (StatusPayload (completion_text code))) [Sent Resume, Close]
                      ((deliver evs s1)\<lparr>nodeDebugClient := None, nodeProcess := None,
                          scriptIdToUrl := [], lastPausedParams := None, consoleMessages := [],
                          pauseMap := Map.empty, currentPauseId := None\<rparr>)))"

text \<open>
  \<^verbatim>\<open>step_over\<close> (lines 511-596), \<^verbatim>\<open>step_into\<close> (607-688) and \<^verbatim>\<open>step_out\<close> (699-780):
  one text with three commands and three labels.
\<close>

definition step_tool ::
  "cdp_command \<Rightarrow> string \<Rightarrow> options \<Rightarrow> race_outcome
     \<Rightarrow> (string \<Rightarrow> property_descriptor list rpc) \<Rightarrow> session \<Rightarrow> outcome" where
  "step_tool cmd label opts race gp s =
     (if nodeDebugClient s = None then reply no_session [] s
      else
        let s1 = register_paused ControlListener s
        in case race of
             CommandRejected m \<Rightarrow> reply (failed label m) [Sent cmd] s1
           | PausedFirst evs ev \<Rightarrow>
               (case dispatch_paused ev (deliver evs s1) of
                  (ed, s2) \<Rightarrow> pause_context label opts gp ev (Sent cmd # ed) s2)
           | ExitedFirst evs code closing \<Rightarrow>
               (case closing of
                  Rejected m \<Rightarrow> reply (failed label m) [Sent cmd, Close] (deliver evs s1)
                | Reply _ \<Rightarrow>
                    reply (PlainText (completion_text code)) [Sent cmd, Close]
                      ((deliver evs s1)\<lparr>nodeDebugClient := None, nodeProcess := None,
                          scriptIdToUrl := [], lastPausedParams := None,
                          consoleMessages := []\<rparr>)))"

definition step_over ::
  "options \<Rightarrow> race_outcome \<Rightarrow> (string \<Rightarrow> property_descriptor list rpc) \<Rightarrow> session \<Rightarrow> outcome" where
  "step_over = step_tool StepOver ''Step over''"

definition step_into ::
  "options \<Rightarrow> race_outcome \<Rightarrow> (string \<Rightarrow> property_descriptor list rpc) \<Rightarrow> session \<Rightarrow> outcome" where
  "step_into = step_tool StepInto ''Step into''"

definition step_out ::
  "options \<Rightarrow> race_outcome \<Rightarrow> (string \<Rightarrow> property_descriptor list rpc) \<Rightarrow> session \<Rightarrow> outcome" where
  "step_out = step_tool StepOut ''Step out''"

text \<open>
  \<^verbatim>\<open>continue_to_location\<close>, lines 327-356. Its exit branch only reports completion
  (the close answer of the race is not consulted).
\<close>

definition continue_to_location ::
  "string \<Rightarrow> int \<Rightarrow> int option \<Rightarrow> race_outcome \<Rightarrow> session \<Rightarrow> outcome" where
  "continue_to_location path ln col race s =
     (if nodeDebugClient s = None then reply no_session [] s
      else
        let u = file_url path; sid = find_script s u
        in if \<not> truthy sid then reply (ErrorText (''Error: Script not found for '' @ u)) [] s
           else
             let cmd = ContinueToLocation (the sid) (ln - 1)
                         ((case col of None \<Rightarrow> 1 | Some c \<Rightarrow> c) - 1);
                 s1 = register_paused ControlListener s;
                 fail = (\<lambda>m. ErrorText (''Error: Failed to continue to location - '' @ m))
             in case race of
                  CommandRejected m \<Rightarrow> reply (fail m) [Sent cmd] s1
                | PausedFirst evs ev \<Rightarrow>
                    (case dispatch_paused ev (deliver evs s1) of
                       (ed, s2) \<Rightarrow>
                         (case callFrames ev of
                            [] \<Rightarrow> reply (fail (type_error ''url'')) (Sent cmd # ed) s2
                          | topFrame # _ \<Rightarrow>
                              reply (Content (PausePayload
                                \<lparr>status = ''Paused at '' @ fs_url (summarizeFrame s2 topFrame) @ '':''
                                    @ show_int (fs_line (summarizeFrame s2 topFrame)),
                                 pauseId = currentPauseId s2,
                                 frame = summarizeFrame s2 topFrame,
                                 consoleOutput = None, stack = None, scopes = None\<rparr>))
                                (Sent cmd # ed) s2))
                | ExitedFirst evs code closing \<Rightarrow>
                    reply (Content (StatusPayload ''Execution completed.'')) [Sent cmd]
                      (deliver evs s1))"

text \<open>
  \<^verbatim>\<open>restart_frame\<close>, lines 362-384. The handler awaits the \<^verbatim>\<open>paused\<close> promise alone, so it
  returns only when the command is rejected or the target pauses.
\<close>

datatype restart_outcome =
    RestartRejected string
  | RestartPaused "intake_event list" pause_event

definition restart_frame :: "nat \<Rightarrow> string option \<Rightarrow> restart_outcome \<Rightarrow> session \<Rightarrow> outcome" where
  "restart_frame frameIndex pid oc s =
     (if nodeDebugClient s = None \<or> lastPausedParams s = None then reply no_pause [] s
      else case select_pause pid s of
             None \<Rightarrow> reply invalid_pause [] s
           | Some pause \<Rightarrow>
               (case nth_opt (callFrames pause) frameIndex of
                  None \<Rightarrow> reply invalid_frame [] s
                | Some fr \<Rightarrow>
                    let cmd = RestartFrame (callFrameId fr);
                        s1 = register_paused ControlListener s;
                        fail = (\<lambda>m. ErrorText (''Error: Failed to restart frame - '' @ m))
                    in (case oc of
                         RestartRejected m \<Rightarrow> reply (fail m) [Sent cmd] s1
                       | RestartPaused evs ev \<Rightarrow>
                           (case dispatch_paused ev (deliver evs s1) of
                              (ed, s2) \<Rightarrow>
                                (case callFrames ev of
                                   [] \<Rightarrow> reply (fail (type_error ''url'')) (Sent cmd # ed) s2
                                 | topFrame # _ \<Rightarrow>
                                     reply (Content (PausePayload
                                       \<lparr>status = ''Restarted frame; now at ''
                                           @ fs_url (summarizeFrame s2 topFrame) @ '':''
                                           @ show_int (fs_line (summarizeFrame s2 topFrame)),
                                        pauseId = currentPauseId s2,
                                        frame = summarizeFrame s2 topFrame,
                                        consoleOutput = None, stack = None, scopes = None\<rparr>))
                                       (Sent cmd # ed) s2)))))"

section \<open>Inspection tools\<close>

record exception_details =
  exc_description :: "string option"
  exc_text :: string

record eval_response =
  exceptionDetails :: "exception_details option"
  eval_result :: remote_object

text \<open>\<^verbatim>\<open>evaluate_expression\<close>, lines 792-844.\<close>

definition evaluate_expression ::
  "string \<Rightarrow> string option \<Rightarrow> nat option \<Rightarrow> bool option \<Rightarrow> eval_response rpc
     \<Rightarrow> session \<Rightarrow> outcome" where
  "evaluate_expression expr pid frameIndex returnByValue target s =
     (if nodeDebugClient s = None \<or> lastPausedParams s = None then reply no_pause [] s
      else
        (case select_pause pid s of
           None \<Rightarrow> reply invalid_pause [] s
         | Some pause \<Rightarrow>
             (case nth_opt (callFrames pause) (case frameIndex of None \<Rightarrow> 0 | Some i \<Rightarrow> i) of
                None \<Rightarrow> reply invalid_frame [] s
              | Some fr \<Rightarrow>
                  if callFrameId fr = [] then reply invalid_frame [] s
                  else
                    let cmd = EvaluateOnCallFrame (callFrameId fr) expr
                                (case returnByValue of None \<Rightarrow> True | Some b \<Rightarrow> b)
                    in (case target of
                          Rejected m \<Rightarrow>
                            reply (ErrorText (''Error: Evaluation failed - '' @ m)) [Sent cmd] s
                        | Reply r \<Rightarrow>
                            (case exceptionDetails r of
                               Some d \<Rightarrow>
                                 reply (ErrorText (''Error: ''
                                          @ or_else (case exc_description d of None \<Rightarrow> [] | Some t \<Rightarrow> t)
                                              (exc_text d)))
                                   [Sent cmd] s
                             | None \<Rightarrow>
                                 reply (Content (EvalPayload
                                          (case obj_value (eval_result r) of
                                             Some v \<Rightarrow> Prim v
                                           | None \<Rightarrow>
                                               Desc (or_else
                                                 (case description (eval_result r) of
                                                    None \<Rightarrow> [] | Some t \<Rightarrow> t)
                                                 (obj_type (eval_result r))))
                                          (consoleMessages s)))
                                   [Sent cmd] (s\<lparr>consoleMessages := []\<rparr>))))))"

text \<open>
  \<^verbatim>\<open>inspect_scopes\<close>, lines 857-914. The handler has no \<^verbatim>\<open>try\<close>: a frame index out of
  range and a rejected \<^verbatim>\<open>Runtime.getProperties\<close> leave it as exceptions. The frame of
  the payload is built by the expression of \<^verbatim>\<open>summarizeFrame\<close>.
\<close>

definition inspect_this ::
  "nat \<Rightarrow> bool option \<Rightarrow> (string \<Rightarrow> property_descriptor list rpc) \<Rightarrow> call_frame
     \<Rightarrow> effect list \<times> (string + this_summary option)" where
  "inspect_this maxProps includeThisPreview gp fr =
     (if includeThisPreview \<noteq> Some False
      then (case frame_this fr of
              None \<Rightarrow> ([], Inr None)
            | Some t \<Rightarrow>
                if obj_type t = [] then ([], Inr None)
                else if truthy (objectId t)
                then (case gp (the (objectId t)) of
                        Rejected m \<Rightarrow> ([Sent (GetProperties (the (objectId t)))], Inl m)
                      | Reply result \<Rightarrow>
                          ([Sent (GetProperties (the (objectId t)))],
                           Inr (Some \<lparr>this_value = summarizeValue (Some t),
                                      preview = Some (listProps maxProps result)\<rparr>)))
                else ([], Inr (Some \<lparr>this_value = summarizeValue (Some t), preview = None\<rparr>)))
      else ([], Inr None))"

definition inspect_scopes ::
  "nat option \<Rightarrow> string option \<Rightarrow> nat option \<Rightarrow> bool option
     \<Rightarrow> (string \<Rightarrow> property_descriptor list rpc) \<Rightarrow> session \<Rightarrow> outcome" where
  "inspect_scopes maxProps_param pid frameIndex includeThisPreview gp s =
     (if nodeDebugClient s = None \<or> lastPausedParams s = None then reply no_pause [] s
      else
        let maxProps = (case maxProps_param of None \<Rightarrow> 15 | Some n \<Rightarrow> n)
        in (case select_pause pid s of
              None \<Rightarrow> reply invalid_pause [] s
            | Some pause \<Rightarrow>
                (case nth_opt (callFrames pause) (case frameIndex of None \<Rightarrow> 0 | Some i \<Rightarrow> i) of
                   None \<Rightarrow> reply (Thrown (type_error ''url'')) [] s
                 | Some fr \<Rightarrow>
                     (case inspect_loop maxProps gp (scopeChain fr) of
                        (es, Inl m) \<Rightarrow> reply (Thrown m) es s
                      | (es, Inr scs) \<Rightarrow>
                          (case inspect_this maxProps includeThisPreview gp fr of
                             (et, Inl m) \<Rightarrow> reply (Thrown m) (es @ et) s
                           | (et, Inr this) \<Rightarrow>
                               reply (Content (ScopesPayload (summarizeFrame s fr) this scs))
                                 (es @ et) s)))))"

text \<open>\<^verbatim>\<open>list_call_stack\<close>, lines 926-942.\<close>

definition list_call_stack :: "nat option \<Rightarrow> string option \<Rightarrow> bool \<Rightarrow> session \<Rightarrow> outcome" where
  "list_call_stack depth pid includeThis s =
     (if nodeDebugClient s = None \<or> lastPausedParams s = None then reply no_pause [] s
      else
        (case select_pause pid s of
           None \<Rightarrow> reply invalid_pause [] s
         | Some pause \<Rightarrow>
             reply (Content (StackPayload
                      (map (\<lambda>f. (summarizeFrame s f,
                                  if includeThis then map_option obj_type (frame_this f) else None))
                         (take (case depth of None \<Rightarrow> 10 | Some d \<Rightarrow> d) (callFrames pause)))
                      (if truthy pid then pid else currentPauseId s)))
               [] s))"

text \<open>
  \<^verbatim>\<open>get_pause_info\<close>, lines 952-989. The selected pause is dereferenced without a
  check, inside the \<^verbatim>\<open>try\<close>; the location is built by the expression of
  \<^verbatim>\<open>summarizeFrame\<close>.
\<close>

definition get_pause_info :: "string option \<Rightarrow> session \<Rightarrow> outcome" where
  "get_pause_info pid s =
     (if lastPausedParams s = None then reply no_pause [] s
      else
        (case select_pause pid s of
           None \<Rightarrow>
             reply (ErrorText (''Error: Failed to get pause info - '' @ type_error ''callFrames''))
               [] s
         | Some pause \<Rightarrow>
             (case callFrames pause of
                [] \<Rightarrow>
                  reply (ErrorText (''Error: Failed to get pause info - '' @ type_error ''url''))
                    [] s
              | topFrame # _ \<Rightarrow>
                  reply (Content (PauseInfoPayload (reason pause)
                           (if truthy pid then pid else currentPauseId s)
                           (summarizeFrame s topFrame)
                           (map scope_type (scopeChain topFrame))))
                    [] s)))"

section \<open>Runs of the server\<close>

text \<open>
  A tool call with its arguments and the answers of the target, one constructor per
  registered tool.
\<close>

datatype tool_call =
    CallStart string child_process start_outcome
  | CallStop "unit rpc"
  | CallSetBreakpoint string int "bp_reply rpc"
  | CallSetBreakpointCondition bp_params string "bp_reply rpc"
  | CallAddLogpoint bp_params string "bp_reply rpc"
  | CallSetExceptionBreakpoints string "unit rpc"
  | CallBlackboxScripts "string list" "unit rpc"
  | CallListScripts
  | CallGetScriptSource "string option" "string option" "string rpc"
  | CallContinueToLocation string int "int option" race_outcome
  | CallRestartFrame nat "string option" restart_outcome
  | CallGetObjectProperties string "nat option" "property_descriptor list rpc"
  | CallReadConsole
  | CallResume options race_outcome "string \<Rightarrow> property_descriptor list rpc"
  | CallStepOver options race_outcome "string \<Rightarrow> property_descriptor list rpc"
  | CallStepInto options race_outcome "string \<Rightarrow> property_descriptor list rpc"
  | CallStepOut options race_outcome "string \<Rightarrow> property_descriptor list rpc"
  | CallEvaluate string "string option" "nat option" "bool option" "eval_response rpc"
  | CallInspectScopes "nat option" "string option" "nat option" "bool option"
      "string \<Rightarrow> property_descriptor list rpc"
  | CallListCallStack "nat option" "string option" bool
  | CallGetPauseInfo "string option"

fun perform :: "tool_call \<Rightarrow> session \<Rightarrow> outcome" where
  "perform (CallStart path child oc) s = start_node_debug path child oc s"
| "perform (CallStop closing) s = stop_debug_session closing s"
| "perform (CallSetBreakpoint path ln target) s = set_breakpoint path ln target s"
| "perform (CallSetBreakpointCondition params cond target) s =
     set_breakpoint_condition params cond target s"
| "perform (CallAddLogpoint params message target) s = add_logpoint params message target s"
| "perform (CallSetExceptionBreakpoints st target) s = set_exception_breakpoints st target s"
| "perform (CallBlackboxScripts patterns target) s = blackbox_scripts patterns target s"
| "perform CallListScripts s = list_scripts s"
| "perform (CallGetScriptSource sid u target) s = get_script_source sid u target s"
| "perform (CallContinueToLocation path ln col race) s = continue_to_location path ln col race s"
| "perform (CallRestartFrame i pid oc) s = restart_frame i pid oc s"
| "perform (CallGetObjectProperties oid maxProps target) s =
     get_object_properties oid maxProps target s"
| "perform CallReadConsole s = read_console s"
| "perform (CallResume opts race gp) s = resume_execution opts race gp s"
| "perform (CallStepOver opts race gp) s = step_over opts race gp s"
| "perform (CallStepInto opts race gp) s = step_into opts race gp s"
| "perform (CallStepOut opts race gp) s = step_out opts race gp s"
| "perform (CallEvaluate expr pid i rbv target) s = evaluate_expression expr pid i rbv target s"
| "perform (CallInspectScopes maxProps pid i itp gp) s = inspect_scopes maxProps pid i itp gp s"
| "perform (CallListCallStack depth pid includeThis) s = list_call_stack depth pid includeThis s"
| "perform (CallGetPauseInfo pid) s = get_pause_info pid s"

text \<open>
  What happens to the server, one after the other (the source assumes serial dispatch):
  a tool call, a \<^verbatim>\<open>Debugger.paused\<close> event that no handler is waiting for, or intake
  events between calls.
\<close>

datatype step = Tool tool_call | PausedEvent pause_event | IntakeEvents "intake_event list"

fun step_run :: "step \<Rightarrow> session \<Rightarrow> effect list \<times> session" where
  "step_run (Tool c) s = (effects (perform c s), after (perform c s))"
| "step_run (PausedEvent ev) s = dispatch_paused ev s"
| "step_run (IntakeEvents evs) s = ([], deliver evs s)"

fun run :: "step list \<Rightarrow> session \<Rightarrow> effect list \<times> session" where
  "run [] s = ([], s)"
| "run (x # xs) s =
     (case step_run x s of (e1, s1) \<Rightarrow> (case run xs s1 of (e2, s2) \<Rightarrow> (e1 @ e2, s2)))"

text \<open>The pause ids minted in a sequence of effects, in order.\<close>

fun minted :: "effect list \<Rightarrow> string list" where
  "minted [] = []"
| "minted (Minted p # es) = p # minted es"
| "minted (_ # es) = minted es"

fun is_stop :: "step \<Rightarrow> bool" where
  "is_stop (Tool (CallStop _)) = True"
| "is_stop _ = False"

section \<open>Predicates and sample data of the properties\<close>

text \<open>
  The effects \<open>es\<close> mint exactly the pause ids of the counter values \<open>c + 1, \<dots>, c'\<close>, in
  this order.
\<close>

definition mint_seq :: "nat \<Rightarrow> effect list \<Rightarrow> nat \<Rightarrow> bool" where
  "mint_seq c es c' = (c \<le> c' \<and> minted es = map pause_id [Suc c..<Suc c'])"

text \<open>A tool call mints the ids between the counter before and the counter after it.\<close>

definition tool_seq :: "session \<Rightarrow> outcome \<Rightarrow> bool" where
  "tool_seq s out = mint_seq (pauseCounter s) (effects out) (pauseCounter (after out))"

text \<open>A pause of the fixture of scenario S1 and a session driven through three pauses.\<close>

definition sample_frame :: call_frame where
  "sample_frame =
     \<lparr>callFrameId = ''frame-0'', functionName = ''add'', frame_url = ''file:///sample.js'',
      frame_location = \<lparr>scriptId = ''7'', lineNumber = 2, columnNumber = Some 4\<rparr>,
      scopeChain = [], frame_this = None\<rparr>"

definition sample_pause :: pause_event where
  "sample_pause = \<lparr>reason = ''other'', callFrames = [sample_frame]\<rparr>"

definition no_context :: options where
  "no_context = \<lparr>includeScopes = False, includeStack = False, includeConsole = False\<rparr>"

definition no_properties :: "string \<Rightarrow> property_descriptor list rpc" where
  "no_properties oid = Reply []"

definition sample_start :: tool_call where
  "sample_start = CallStart ''sample.js'' (ChildProcess 1) (InitialPause [] sample_pause)"

definition sample_run :: "step list" where
  "sample_run =
     [Tool sample_start,
      Tool (CallResume no_context (PausedFirst [] sample_pause) no_properties),
      Tool (CallStepOver no_context (PausedFirst [] sample_pause) no_properties)]"

text \<open>The number of minting callbacks in a list, and on the client of the session.\<close>

fun control_listeners :: "paused_listener list \<Rightarrow> nat" where
  "control_listeners [] = 0"
| "control_listeners (StartListener # ls) = control_listeners ls"
| "control_listeners (ControlListener # ls) = Suc (control_listeners ls)"


fun is_control :: "tool_call \<Rightarrow> bool" where
  "is_control (CallResume _ _ _) = True"
| "is_control (CallStepOver _ _ _) = True"
| "is_control (CallStepInto _ _ _) = True"
| "is_control (CallStepOut _ _ _) = True"
| "is_control (CallContinueToLocation _ _ _ _) = True"
| "is_control (CallRestartFrame _ _ _) = True"
| "is_control _ = False"

text \<open>
  An execution-control call that gets past the checks of its handler: it acts on the
  target (a call rejected by a check has no effect at all).
\<close>

definition registers :: "tool_call \<Rightarrow> session \<Rightarrow> bool" where
  "registers c s = (is_control c \<and> effects (perform c s) \<noteq> [])"



fun registrations :: "tool_call list \<Rightarrow> session \<Rightarrow> nat" where
  "registrations [] s = 0"
| "registrations (c # cs) s =
     (if registers c s then 1 else 0) + registrations cs (after (perform c s))"

text \<open>Every call of the list is an execution-control call that gets past its checks.\<close>

fun each_registers :: "tool_call list \<Rightarrow> session \<Rightarrow> bool" where
  "each_registers [] s = True"
| "each_registers (c # cs) s = (registers c s \<and> each_registers cs (after (perform c s)))"

definition sample_started :: session where
  "sample_started = after (perform sample_start initial_session)"


text \<open>
  The lexical rule of a JavaScript template literal that the escaping of
  \<^verbatim>\<open>toCondition\<close> relies on: a backslash escapes the character after it, and a backtick
  that is not escaped ends the literal. The predicate holds when the text, read as the
  inside of a template literal, contains such a backtick.
\<close>

fun unescaped_backtick :: "string \<Rightarrow> bool" where
  "unescaped_backtick [] = False"
| "unescaped_backtick [c] = (c = backtick)"
| "unescaped_backtick (c # d # cs) =
     (if c = backslash then unescaped_backtick cs
      else if c = backtick then True
      else unescaped_backtick (d # cs))"

text \<open>The target exits with code 0 and the client closes.\<close>

definition exited_cleanly :: race_outcome where
  "exited_cleanly = ExitedFirst [] (Some 0) (Reply ())"

text \<open>Breakpoint parameters with both locators, and an answer of the target.\<close>

definition both_locators :: bp_params where
  "both_locators =
     \<lparr>filePath = Some ''/app/sample.js'', urlRegex = Some ''sample.js$'', line = 3,
      column = None\<rparr>"

definition sample_bp_reply :: bp_reply where
  "sample_bp_reply =
     \<lparr>breakpointId = ''2:2:0:sample'',
      locations = [\<lparr>scriptId = ''7'', lineNumber = 2, columnNumber = Some 4\<rparr>]\<rparr>"



text \<open>
  The response of each tool other than the two lifecycle tools when no session exists:
  the tools that talk to the client report the missing session, the five tools that read
  a pause report the missing pause, and the two readers of the local catalogs succeed
  with empty lists.
\<close>

fun without_session :: "tool_call \<Rightarrow> response option" where
  "without_session (CallStart _ _ _) = None"
| "without_session (CallStop _) = None"
| "without_session CallListScripts = Some (Content (ScriptsPayload []))"
| "without_session CallReadConsole = Some (Content (ConsolePayload []))"
| "without_session (CallRestartFrame _ _ _) = Some no_pause"
| "without_session (CallEvaluate _ _ _ _ _) = Some no_pause"
| "without_session (CallInspectScopes _ _ _ _ _) = Some no_pause"
| "without_session (CallListCallStack _ _ _) = Some no_pause"
| "without_session (CallGetPauseInfo _) = Some no_pause"
| "without_session _ = Some no_session"

definition stopped :: session where
  "stopped = after (stop_debug_session (Reply ()) sample_started)"

text \<open>
  A pause whose top frame has a local and a global scope, both with an object handle, a
  target that answers every \<^verbatim>\<open>Runtime.getProperties\<close> with twenty properties, and the
  session started at that pause.
\<close>

definition handle :: "string \<Rightarrow> remote_object" where
  "handle oid =
     \<lparr>obj_type = ''object'', objectId = Some oid, obj_value = None,
      description = Some ''Object'', className = Some ''Object''\<rparr>"

definition scoped_frame :: call_frame where
  "scoped_frame =
     \<lparr>callFrameId = ''frame-0'', functionName = ''add'', frame_url = ''file:///app/sample.js'',
      frame_location = \<lparr>scriptId = ''7'', lineNumber = 2, columnNumber = Some 4\<rparr>,
      scopeChain = [\<lparr>scope_type = ''local'', scope_object = Some (handle ''local-1'')\<rparr>,
                    \<lparr>scope_type = ''global'', scope_object = Some (handle ''global-1'')\<rparr>],
      frame_this = None\<rparr>"

definition scoped_pause :: pause_event where
  "scoped_pause = \<lparr>reason = ''other'', callFrames = [scoped_frame]\<rparr>"

definition twenty_properties :: "string \<Rightarrow> property_descriptor list rpc" where
  "twenty_properties oid =
     Reply (map (\<lambda>i. \<lparr>prop_name = ''v'' @ show_nat i, prop_value = None\<rparr>) [0..<20])"

definition scoped_started :: session where
  "scoped_started =
     after (perform (CallStart ''sample.js'' (ChildProcess 1) (InitialPause [] scoped_pause))
              initial_session)"

definition with_scopes :: options where
  "with_scopes = \<lparr>includeScopes = True, includeStack = False, includeConsole = False\<rparr>"

text \<open>The scopes listed in a response: kind, number of variables, truncation flag.\<close>

fun listed_scopes :: "response \<Rightarrow> (string \<times> nat \<times> bool) list" where
  "listed_scopes (Content (PausePayload pp)) =
     (case scopes pp of
        None \<Rightarrow> []
      | Some ls \<Rightarrow> map (\<lambda>l. (sl_type l, length (variables l), truncated l)) ls)"
| "listed_scopes (Content (ScopesPayload f t ls)) =
     map (\<lambda>l. (sl_type l, length (variables l), truncated l)) ls"
| "listed_scopes _ = []"

text \<open>The scopes of a frame that the loops list: those with an object id.\<close>

definition listable :: "scope list \<Rightarrow> scope list" where
  "listable scs = filter (\<lambda>sc. scope_handle sc \<noteq> None) scs"

text \<open>Breakpoint parameters with a file path and the column 5.\<close>

definition column_five :: bp_params where
  "column_five =
     \<lparr>filePath = Some ''/app/sample.js'', urlRegex = None, line = 3, column = Some 5\<rparr>"

text \<open>The frame summaries of a response.\<close>

fun response_frames :: "response \<Rightarrow> frame_summary list" where
  "response_frames (Content (PausePayload pp)) =
     frame pp # (case stack pp of None \<Rightarrow> [] | Some fs \<Rightarrow> fs)"
| "response_frames (Content (ScopesPayload f t ls)) = [f]"
| "response_frames (Content (StackPayload fs pid)) = map fst fs"
| "response_frames (Content (PauseInfoPayload r pid f tys)) = [f]"
| "response_frames _ = []"

text \<open>The call frames of the target that a tool call reports on.\<close>

fun raced_frames :: "race_outcome \<Rightarrow> call_frame list" where
  "raced_frames (PausedFirst evs ev) = callFrames ev"
| "raced_frames _ = []"

definition selected_frames :: "string option \<Rightarrow> session \<Rightarrow> call_frame list" where
  "selected_frames pid s = (case select_pause pid s of None \<Rightarrow> [] | Some pause \<Rightarrow> callFrames pause)"

fun source_frames :: "tool_call \<Rightarrow> session \<Rightarrow> call_frame list" where
  "source_frames (CallStart path child (InitialPause evs ev)) s = callFrames ev"
| "source_frames (CallResume opts race gp) s = raced_frames race"
| "source_frames (CallStepOver opts race gp) s = raced_frames race"
| "source_frames (CallStepInto opts race gp) s = raced_frames race"
| "source_frames (CallStepOut opts race gp) s = raced_frames race"
| "source_frames (CallContinueToLocation path ln col race) s = raced_frames race"
| "source_frames (CallRestartFrame i pid (RestartPaused evs ev)) s = callFrames ev"
| "source_frames (CallInspectScopes maxProps pid i itp gp) s = selected_frames pid s"
| "source_frames (CallListCallStack depth pid includeThis) s = selected_frames pid s"
| "source_frames (CallGetPauseInfo pid) s = selected_frames pid s"
| "source_frames _ s = []"

text \<open>A frame summary carries the 1-based line and column of a 0-based call frame.\<close>

definition converted :: "frame_summary \<Rightarrow> call_frame \<Rightarrow> bool" where
  "converted f fr =
     (fs_line f = lineNumber (frame_location fr) + 1
      \<and> fs_column f = (case columnNumber (frame_location fr) of None \<Rightarrow> 0 | Some c \<Rightarrow> c) + 1)"

text \<open>Every frame summary of the response converts one of the given call frames.\<close>

definition frames_from :: "response \<Rightarrow> call_frame list \<Rightarrow> bool" where
  "frames_from r frs = (\<forall>f \<in> set (response_frames r). \<exists>fr \<in> set frs. converted f fr)"

section \<open>Pause ids\<close>

subsection \<open>Decimal rendering is injective\<close>

lemma digit_char_inj: "a < 10 \<Longrightarrow> b < 10 \<Longrightarrow> digit_char a = digit_char b \<Longrightarrow> a = b"
  unfolding digit_char_def by (simp split: if_splits) arith

lemma show_nat_small: "n < 10 \<Longrightarrow> show_nat n = [digit_char n]"
  by (subst show_nat.simps) simp

lemma show_nat_large: "\<not> n < 10 \<Longrightarrow> show_nat n = show_nat (n div 10) @ [digit_char (n mod 10)]"
  by (subst show_nat.simps) simp

lemma show_nat_nonempty: "show_nat n \<noteq> []"
  by (subst show_nat.simps) simp

lemma show_nat_inj: "show_nat a = show_nat b \<Longrightarrow> a = b"
proof (induction a arbitrary: b rule: show_nat.induct)
  case (1 n)
  show ?case
  proof (cases "n < 10")
    case True
    note small = this
    show ?thesis
    proof (cases "b < 10")
      case True
      with small "1.prems" show ?thesis
        by (simp add: show_nat_small digit_char_inj)
    next
      case False
      with small "1.prems" show ?thesis
        by (simp add: show_nat_small show_nat_large show_nat_nonempty show_nat_nonempty [THEN not_sym])
    qed
  next
    case False
    note large = this
    show ?thesis
    proof (cases "b < 10")
      case True
      with large "1.prems" show ?thesis
        by (simp add: show_nat_small show_nat_large show_nat_nonempty show_nat_nonempty [THEN not_sym])
    next
      case False
      with large "1.prems" have eq: "show_nat (n div 10) = show_nat (b div 10)"
        and d: "digit_char (n mod 10) = digit_char (b mod 10)"
        by (simp_all add: show_nat_large)
      from "1.IH" [OF large eq] have "n div 10 = b div 10" .
      moreover from d have "n mod 10 = b mod 10"
        by (intro digit_char_inj) simp_all
      ultimately show ?thesis
        by (metis div_mult_mod_eq)
    qed
  qed
qed

lemma pause_id_inj: "pause_id a = pause_id b \<Longrightarrow> a = b"
  by (simp add: pause_id_def show_nat_inj)

lemma inj_pause_id: "inj pause_id"
  by (rule injI) (rule pause_id_inj)

subsection \<open>Minting along the handlers\<close>

lemma minted_append: "minted (xs @ ys) = minted xs @ minted ys"
  by (induction xs rule: minted.induct) simp_all

lemma mint_seq_none: "minted es = [] \<Longrightarrow> mint_seq c es c"
  by (simp add: mint_seq_def)

lemma mint_seq_append:
  assumes "mint_seq a e1 b" and "mint_seq b e2 c"
  shows "mint_seq a (e1 @ e2) c"
proof -
  from assms have le: "a \<le> b" "b \<le> c" by (simp_all add: mint_seq_def)
  then have "[Suc a..<Suc c] = [Suc a..<Suc b] @ [Suc b..<Suc c]"
    using upt_add_eq_append [of "Suc a" "Suc b" "c - b"] by simp
  with assms le show ?thesis
    by (simp add: mint_seq_def minted_append)
qed

lemma mint_pause_seq:
  "mint_seq (pauseCounter s) (fst (mint_pause ev s)) (pauseCounter (snd (mint_pause ev s)))"
  by (simp add: mint_pause_def mint_seq_def Let_def)

lemma run_listener_seq:
  "mint_seq (pauseCounter s) (fst (run_listener l ev s)) (pauseCounter (snd (run_listener l ev s)))"
  by (cases l) (simp_all add: mint_pause_def mint_seq_def Let_def)

lemma run_listeners_seq:
  "mint_seq (pauseCounter s) (fst (run_listeners ls ev s)) (pauseCounter (snd (run_listeners ls ev s)))"
proof (induction ls arbitrary: s)
  case Nil
  show ?case by (simp add: mint_seq_def)
next
  case (Cons l ls)
  obtain e1 s1 where r1: "run_listener l ev s = (e1, s1)" by (cases "run_listener l ev s")
  obtain e2 s2 where r2: "run_listeners ls ev s1 = (e2, s2)" by (cases "run_listeners ls ev s1")
  from run_listener_seq [of s l ev] r1 have a: "mint_seq (pauseCounter s) e1 (pauseCounter s1)" by simp
  from Cons.IH [of s1] r2 have b: "mint_seq (pauseCounter s1) e2 (pauseCounter s2)" by simp
  from mint_seq_append [OF a b] r1 r2 show ?case by simp
qed

lemma dispatch_seq:
  "mint_seq (pauseCounter s) (fst (dispatch_paused ev s)) (pauseCounter (snd (dispatch_paused ev s)))"
  by (simp add: dispatch_paused_def run_listeners_seq mint_seq_none split: option.splits)

lemma build_scopes_minted: "minted (fst (build_scopes gp scs)) = []"
  by (induction scs) (auto split: option.splits rpc.splits prod.splits sum.splits)

lemma inspect_loop_minted: "minted (fst (inspect_loop n gp scs)) = []"
  by (induction scs) (auto split: option.splits rpc.splits prod.splits sum.splits)

lemma inspect_this_minted: "minted (fst (inspect_this n itp gp fr)) = []"
  by (simp add: inspect_this_def split: option.splits rpc.splits)

lemma intake_counter: "pauseCounter (intake e s) = pauseCounter s"
  by (cases e) simp_all

lemma fold_intake_counter: "pauseCounter (fold intake evs s) = pauseCounter s"
  by (induction evs arbitrary: s) (simp_all add: intake_counter)

lemma deliver_counter: "pauseCounter (deliver evs s) = pauseCounter s"
  by (simp add: deliver_def fold_intake_counter split: option.splits)

lemma register_counter: "pauseCounter (register_paused l s) = pauseCounter s"
  by (simp add: register_paused_def)

lemma tool_seq_reply: "tool_seq s (reply r es s') = mint_seq (pauseCounter s) es (pauseCounter s')"
  by (simp add: tool_seq_def reply_def)

lemma mint_seq_skip:
  "mint_seq c (Sent x # es) c' = mint_seq c es c'"
  "mint_seq c (Spawn p # es) c' = mint_seq c es c'"
  "mint_seq c (Connect # es) c' = mint_seq c es c'"
  "mint_seq c (Kill # es) c' = mint_seq c es c'"
  "mint_seq c (Close # es) c' = mint_seq c es c'"
  by (simp_all add: mint_seq_def)

lemma mint_seq_nil: "mint_seq c [] c"
  by (simp add: mint_seq_def)

lemma mint_seq_quiet: "mint_seq a es b \<Longrightarrow> minted eg = [] \<Longrightarrow> mint_seq a (es @ eg) b"
  by (simp add: mint_seq_def minted_append)

lemma pause_context_seq:
  assumes "mint_seq c es (pauseCounter s)"
  shows "mint_seq c (effects (pause_context label opts gp ev es s))
           (pauseCounter (after (pause_context label opts gp ev es s)))"
proof (cases "callFrames ev")
  case Nil
  with assms show ?thesis by (simp add: pause_context_def reply_def)
next
  case (Cons topFrame rest)
  obtain eg r where b: "build_scopes gp (scopeChain topFrame) = (eg, r)"
    by (cases "build_scopes gp (scopeChain topFrame)")
  from build_scopes_minted [of gp "scopeChain topFrame"] b have "minted eg = []" by simp
  with assms have "mint_seq c (es @ eg) (pauseCounter s)" by (rule mint_seq_quiet)
  with assms Cons b show ?thesis
    by (cases r) (simp_all add: pause_context_def reply_def Let_def)
qed

lemma dispatch_after_register:
  "mint_seq (pauseCounter s) (fst (dispatch_paused ev (deliver evs (register_paused l s))))
     (pauseCounter (snd (dispatch_paused ev (deliver evs (register_paused l s)))))"
  using dispatch_seq [of "deliver evs (register_paused l s)" ev]
  by (simp add: deliver_counter register_counter)

lemma resume_execution_seq: "tool_seq s (resume_execution opts race gp s)"
proof (cases "nodeDebugClient s")
  case None
  then show ?thesis by (simp add: resume_execution_def tool_seq_reply mint_seq_nil)
next
  case (Some cl)
  note active = this
  show ?thesis
  proof (cases race)
    case (CommandRejected m)
    with active show ?thesis
      by (simp add: resume_execution_def tool_seq_reply mint_seq_skip mint_seq_nil register_counter)
  next
    case (PausedFirst evs ev)
    obtain ed s2 where d: "dispatch_paused ev (deliver evs (register_paused ControlListener s)) = (ed, s2)"
      by (cases "dispatch_paused ev (deliver evs (register_paused ControlListener s))")
    from dispatch_after_register [of s ev evs ControlListener] d
    have "mint_seq (pauseCounter s) (Sent Resume # ed) (pauseCounter s2)"
      by (simp add: mint_seq_skip)
    from pause_context_seq [OF this] active PausedFirst d show ?thesis
      by (simp add: resume_execution_def tool_seq_def)
  next
    case (ExitedFirst evs code closing)
    with active show ?thesis
      by (cases closing)
         (simp_all add: resume_execution_def tool_seq_reply mint_seq_skip mint_seq_nil
            register_counter deliver_counter)
  qed
qed

lemma step_tool_seq: "tool_seq s (step_tool cmd label opts race gp s)"
proof (cases "nodeDebugClient s")
  case None
  then show ?thesis by (simp add: step_tool_def tool_seq_reply mint_seq_nil)
next
  case (Some cl)
  note active = this
  show ?thesis
  proof (cases race)
    case (CommandRejected m)
    with active show ?thesis
      by (simp add: step_tool_def tool_seq_reply mint_seq_skip mint_seq_nil register_counter)
  next
    case (PausedFirst evs ev)
    obtain ed s2 where d: "dispatch_paused ev (deliver evs (register_paused ControlListener s)) = (ed, s2)"
      by (cases "dispatch_paused ev (deliver evs (register_paused ControlListener s))")
    from dispatch_after_register [of s ev evs ControlListener] d
    have "mint_seq (pauseCounter s) (Sent cmd # ed) (pauseCounter s2)"
      by (simp add: mint_seq_skip)
    from pause_context_seq [OF this] active PausedFirst d show ?thesis
      by (simp add: step_tool_def tool_seq_def)
  next
    case (ExitedFirst evs code closing)
    with active show ?thesis
      by (cases closing)
         (simp_all add: step_tool_def tool_seq_reply mint_seq_skip mint_seq_nil
            register_counter deliver_counter)
  qed
qed

lemma continue_to_location_seq: "tool_seq s (continue_to_location path ln col race s)"
proof (cases "nodeDebugClient s = None \<or> \<not> truthy (find_script s (file_url path))")
  case True
  then show ?thesis
    by (auto simp add: continue_to_location_def tool_seq_reply mint_seq_nil Let_def)
next
  case False
  then obtain cl where "nodeDebugClient s = Some cl" "truthy (find_script s (file_url path))"
    by auto
  note active = this
  show ?thesis
  proof (cases race)
    case (CommandRejected m)
    with active show ?thesis
      by (simp add: continue_to_location_def tool_seq_reply mint_seq_skip mint_seq_nil
            register_counter Let_def)
  next
    case (PausedFirst evs ev)
    obtain ed s2 where d: "dispatch_paused ev (deliver evs (register_paused ControlListener s)) = (ed, s2)"
      by (cases "dispatch_paused ev (deliver evs (register_paused ControlListener s))")
    from dispatch_after_register [of s ev evs ControlListener] d
    have "mint_seq (pauseCounter s) ed (pauseCounter s2)" by simp
    with active PausedFirst d show ?thesis
      by (cases "callFrames ev")
         (simp_all add: continue_to_location_def tool_seq_reply mint_seq_skip Let_def)
  next
    case (ExitedFirst evs code closing)
    with active show ?thesis
      by (simp add: continue_to_location_def tool_seq_reply mint_seq_skip mint_seq_nil
            register_counter deliver_counter Let_def)
  qed
qed

lemma restart_frame_seq: "tool_seq s (restart_frame i pid oc s)"
proof (cases "nodeDebugClient s = None \<or> lastPausedParams s = None")
  case True
  then show ?thesis by (auto simp add: restart_frame_def tool_seq_reply mint_seq_nil)
next
  case False
  then obtain cl lp where "nodeDebugClient s = Some cl" "lastPausedParams s = Some lp"
    by auto
  note active = this
  show ?thesis
  proof (cases "select_pause pid s")
    case None
    with active show ?thesis by (simp add: restart_frame_def tool_seq_reply mint_seq_nil)
  next
    case (Some pause)
    note sel = this
    show ?thesis
    proof (cases "nth_opt (callFrames pause) i")
      case None
      with active sel show ?thesis by (simp add: restart_frame_def tool_seq_reply mint_seq_nil)
    next
      case (Some fr)
      note frame = this
      show ?thesis
      proof (cases oc)
        case (RestartRejected m)
        with active sel frame show ?thesis
          by (simp add: restart_frame_def tool_seq_reply mint_seq_skip mint_seq_nil
                register_counter Let_def)
      next
        case (RestartPaused evs ev)
        obtain ed s2 where d: "dispatch_paused ev (deliver evs (register_paused ControlListener s)) = (ed, s2)"
          by (cases "dispatch_paused ev (deliver evs (register_paused ControlListener s))")
        from dispatch_after_register [of s ev evs ControlListener] d
        have "mint_seq (pauseCounter s) ed (pauseCounter s2)" by simp
        with active sel frame RestartPaused d show ?thesis
          by (cases "callFrames ev")
             (simp_all add: restart_frame_def tool_seq_reply mint_seq_skip Let_def)
      qed
    qed
  qed
qed

lemma dispatch_seq_eq:
  "dispatch_paused ev s = (ed, s') \<Longrightarrow> mint_seq (pauseCounter s) ed (pauseCounter s')"
  using dispatch_seq [of s ev] by simp

lemma mint_seq_snoc:
  "mint_seq a ed b \<Longrightarrow> mint_seq a (ed @ [Minted (pause_id (Suc b))]) (Suc b)"
  by (simp add: mint_seq_def minted_append)

lemma start_node_debug_seq: "tool_seq s (start_node_debug path child oc s)"
proof (cases "nodeDebugClient s")
  case (Some cl)
  then show ?thesis by (simp add: start_node_debug_def tool_seq_reply mint_seq_nil)
next
  case None
  note idle = this
  show ?thesis
  proof (cases oc)
    case (InitialPause evs ev)
    with idle show ?thesis
      by (auto simp add: start_node_debug_def tool_seq_reply mint_seq_skip Let_def
            mint_pause_def deliver_counter register_counter
            split: prod.splits list.splits
            dest!: dispatch_seq_eq intro: mint_seq_snoc)
  qed (simp_all add: idle start_node_debug_def tool_seq_reply mint_seq_skip mint_seq_nil
         register_counter Let_def)
qed

lemma set_breakpoint_seq: "tool_seq s (set_breakpoint path ln target s)"
  by (simp add: set_breakpoint_def tool_seq_reply mint_seq_skip mint_seq_nil Let_def
        split: rpc.splits)

lemma set_breakpoint_condition_seq: "tool_seq s (set_breakpoint_condition params cond target s)"
  by (simp add: set_breakpoint_condition_def tool_seq_reply mint_seq_skip mint_seq_nil Let_def
        split: rpc.splits)

lemma add_logpoint_seq: "tool_seq s (add_logpoint params message target s)"
  by (simp add: add_logpoint_def tool_seq_reply mint_seq_skip mint_seq_nil Let_def
        split: rpc.splits)

lemma set_exception_breakpoints_seq: "tool_seq s (set_exception_breakpoints st target s)"
  by (simp add: set_exception_breakpoints_def tool_seq_reply mint_seq_skip mint_seq_nil
        split: rpc.splits)

lemma blackbox_scripts_seq: "tool_seq s (blackbox_scripts patterns target s)"
  by (simp add: blackbox_scripts_def tool_seq_reply mint_seq_skip mint_seq_nil
        split: rpc.splits)

lemma list_scripts_seq: "tool_seq s (list_scripts s)"
  by (simp add: list_scripts_def tool_seq_reply mint_seq_nil)

lemma read_console_seq: "tool_seq s (read_console s)"
  by (simp add: read_console_def tool_seq_reply mint_seq_nil)

lemma get_script_source_seq: "tool_seq s (get_script_source sid u target s)"
  by (simp add: get_script_source_def tool_seq_reply mint_seq_skip mint_seq_nil Let_def
        split: rpc.splits)

lemma get_object_properties_seq: "tool_seq s (get_object_properties oid n target s)"
  by (simp add: get_object_properties_def tool_seq_reply mint_seq_skip mint_seq_nil
        split: rpc.splits)

lemma evaluate_expression_seq: "tool_seq s (evaluate_expression expr pid i rbv target s)"
  by (simp add: evaluate_expression_def tool_seq_reply mint_seq_skip mint_seq_nil Let_def
        split: rpc.splits option.splits)

lemma inspect_scopes_seq: "tool_seq s (inspect_scopes n pid i itp gp s)"
proof -
  have quiet: "mint_seq (pauseCounter s) (es @ et) (pauseCounter s)"
    if "inspect_loop k gp scs = (es, r)" and "inspect_this k itp gp fr = (et, t)"
    for k scs es r fr et t
  proof -
    from that inspect_loop_minted [of k gp scs] inspect_this_minted [of k itp gp fr]
    have "minted (es @ et) = []" by (simp add: minted_append)
    then show ?thesis by (rule mint_seq_none)
  qed
  have quiet1: "mint_seq (pauseCounter s) es (pauseCounter s)"
    if "inspect_loop k gp scs = (es, r)" for k scs es r
  proof -
    from that inspect_loop_minted [of k gp scs] have "minted es = []" by simp
    then show ?thesis by (rule mint_seq_none)
  qed
  show ?thesis
    by (auto simp add: inspect_scopes_def tool_seq_reply mint_seq_nil Let_def
          split: option.splits prod.splits sum.splits intro: quiet quiet1)
qed

lemma list_call_stack_seq: "tool_seq s (list_call_stack depth pid it s)"
  by (simp add: list_call_stack_def tool_seq_reply mint_seq_nil split: option.splits)

lemma get_pause_info_seq: "tool_seq s (get_pause_info pid s)"
  by (simp add: get_pause_info_def tool_seq_reply mint_seq_nil split: option.splits list.splits)

lemma perform_seq: "\<not> is_stop (Tool c) \<Longrightarrow> tool_seq s (perform c s)"
  by (cases c)
     (simp_all add: start_node_debug_seq set_breakpoint_seq set_breakpoint_condition_seq
        add_logpoint_seq set_exception_breakpoints_seq blackbox_scripts_seq list_scripts_seq
        read_console_seq get_script_source_seq get_object_properties_seq
        evaluate_expression_seq inspect_scopes_seq list_call_stack_seq get_pause_info_seq
        resume_execution_seq step_tool_seq continue_to_location_seq restart_frame_seq
        step_over_def step_into_def step_out_def)

lemma step_run_seq:
  "\<not> is_stop x \<Longrightarrow> mint_seq (pauseCounter s) (fst (step_run x s)) (pauseCounter (snd (step_run x s)))"
proof (cases x)
  case (Tool c)
  assume "\<not> is_stop x"
  with Tool perform_seq [of c s] show ?thesis by (simp add: tool_seq_def)
next
  case (PausedEvent ev)
  then show ?thesis by (simp add: dispatch_seq)
next
  case (IntakeEvents evs)
  then show ?thesis by (simp add: deliver_counter mint_seq_nil)
qed

lemma run_seq:
  "list_all (\<lambda>x. \<not> is_stop x) xs \<Longrightarrow>
     mint_seq (pauseCounter s) (fst (run xs s)) (pauseCounter (snd (run xs s)))"
proof (induction xs arbitrary: s)
  case Nil
  show ?case by (simp add: mint_seq_nil)
next
  case (Cons x xs)
  obtain e1 s1 where r1: "step_run x s = (e1, s1)" by (cases "step_run x s")
  obtain e2 s2 where r2: "run xs s1 = (e2, s2)" by (cases "run xs s1")
  from Cons.prems have nx: "\<not> is_stop x" and rest: "list_all (\<lambda>x. \<not> is_stop x) xs" by simp_all
  from step_run_seq [OF nx, of s] r1 have a: "mint_seq (pauseCounter s) e1 (pauseCounter s1)" by simp
  from Cons.IH [OF rest, of s1] r2 have b: "mint_seq (pauseCounter s1) e2 (pauseCounter s2)" by simp
  from mint_seq_append [OF a b] r1 r2 show ?case by simp
qed

text \<open>
  C1. In a run of tool calls and target events without \<^verbatim>\<open>stop_debug_session\<close> (which
  resets the counter and so ends the numbering of a session), the pause ids minted are
  \<^verbatim>\<open>'p' + n\<close> for the consecutive counter values \<open>n\<close> after the initial counter, in the
  order of minting: every id belongs to a strictly greater counter than every id minted
  before it, and no id is minted twice.
\<close>

theorem pause_ids_unique_and_increasing:
  assumes "list_all (\<lambda>x. \<not> is_stop x) xs"
  shows "minted (fst (run xs s))
           = map pause_id [Suc (pauseCounter s)..<Suc (pauseCounter (snd (run xs s)))]
         \<and> distinct (minted (fst (run xs s)))
         \<and> pauseCounter s \<le> pauseCounter (snd (run xs s))"
proof -
  from run_seq [OF assms, of s]
  have m: "minted (fst (run xs s))
             = map pause_id [Suc (pauseCounter s)..<Suc (pauseCounter (snd (run xs s)))]"
    and le: "pauseCounter s \<le> pauseCounter (snd (run xs s))"
    by (simp_all add: mint_seq_def)
  have "distinct (map pause_id [Suc (pauseCounter s)..<Suc (pauseCounter (snd (run xs s)))])"
    by (simp add: distinct_map inj_on_def pause_id_inj)
  with m le show ?thesis by simp
qed

theorem pause_ids_unique_and_increasing_witness:
  "list_all (\<lambda>x. \<not> is_stop x) sample_run
   \<and> minted (fst (run sample_run initial_session)) = [''p1'', ''p2'', ''p3'', ''p4'']
   \<and> distinct (minted (fst (run sample_run initial_session)))"
proof -
  have h: "list_all (\<lambda>x. \<not> is_stop x) sample_run"
    by (simp add: sample_run_def sample_start_def)
  have c: "pauseCounter (snd (run sample_run initial_session)) = 4"
    by code_simp
  have i: "pauseCounter initial_session = 0"
    by (simp add: initial_session_def)
  have m: "map pause_id [Suc 0..<Suc 4] = [''p1'', ''p2'', ''p3'', ''p4'']"
    by code_simp
  from pause_ids_unique_and_increasing [OF h, of initial_session] h show ?thesis
    by (simp only: c i m) simp
qed

section \<open>Accumulation of paused callbacks\<close>

lemma run_listeners_Cons:
  "run_listeners (l # ls) ev s =
     (fst (run_listener l ev s) @ fst (run_listeners ls ev (snd (run_listener l ev s))),
      snd (run_listeners ls ev (snd (run_listener l ev s))))"
  by (simp split: prod.splits)
























lemma registrations_each: "each_registers cs s \<Longrightarrow> registrations cs s = length cs"
  by (induction cs arbitrary: s) simp_all


lemma run_listeners_effects:
  "fst (run_listeners ls ev s)
     = map (\<lambda>n. Minted (pause_id n))
         [Suc (pauseCounter s)..<Suc (pauseCounter s + control_listeners ls)]"
proof (induction ls arbitrary: s rule: control_listeners.induct)
  case 1
  show ?case by simp
next
  case (2 ls)
  from "2.IH" [of "s\<lparr>lastPausedParams := Some ev\<rparr>"] show ?case
    by (simp add: run_listeners_Cons del: run_listeners.simps)
next
  case (3 ls)
  have "[Suc (pauseCounter s)..<Suc (Suc (pauseCounter s + control_listeners ls))]
          = Suc (pauseCounter s) # [Suc (Suc (pauseCounter s))..<Suc (Suc (pauseCounter s + control_listeners ls))]"
    by (simp add: upt_conv_Cons)
  with "3.IH" [of "snd (mint_pause ev (s\<lparr>lastPausedParams := Some ev\<rparr>))"] show ?case
    by (simp add: run_listeners_Cons mint_pause_def Let_def del: run_listeners.simps upt_Suc)
qed





section \<open>Teardown when the target exits\<close>

lemma intake_pauses:
  "pauseMap (intake e s) = pauseMap s" "currentPauseId (intake e s) = currentPauseId s"
  by (cases e; simp)+

lemma deliver_pauses:
  "pauseMap (deliver evs s) = pauseMap s \<and> currentPauseId (deliver evs s) = currentPauseId s"
proof -
  have "pauseMap (fold intake evs t) = pauseMap t \<and> currentPauseId (fold intake evs t) = currentPauseId t"
    for t by (induction evs arbitrary: t) (simp_all add: intake_pauses)
  then show ?thesis by (simp add: deliver_def split: option.splits)
qed

text \<open>
  What \<^verbatim>\<open>resume_execution\<close> does when the exit wins the race and the client closes: the
  whole session state is cleared and a completion status with the exit code is returned.
\<close>

lemma resume_execution_exit_teardown:
  assumes "nodeDebugClient s \<noteq> None"
  shows "resume_execution opts (ExitedFirst evs code (Reply u)) gp s =
           \<lparr>response = Content (StatusPayload (completion_text code)),
            effects = [Sent Resume, Close],
            after = \<lparr>nodeDebugClient = None, nodeProcess = None, scriptIdToUrl = [],
                      consoleMessages = [], lastPausedParams = None,
                      pauseCounter = pauseCounter s, pauseMap = Map.empty,
                      currentPauseId = None\<rparr>\<rparr>"
  using assms
  by (simp add: resume_execution_def reply_def deliver_counter register_counter)

text \<open>
  The same branch of \<^verbatim>\<open>step_over\<close>, \<^verbatim>\<open>step_into\<close> and \<^verbatim>\<open>step_out\<close> leaves the pause
  catalog and the current pause id as they were.
\<close>

lemma step_tool_exit_keeps_pauses:
  assumes "nodeDebugClient s \<noteq> None"
  shows "pauseMap (after (step_tool cmd label opts (ExitedFirst evs code (Reply u)) gp s)) = pauseMap s
       \<and> currentPauseId (after (step_tool cmd label opts (ExitedFirst evs code (Reply u)) gp s))
           = currentPauseId s"
  using assms
  by (simp add: step_tool_def reply_def deliver_pauses register_paused_def)

text \<open>
  C2. \<^verbatim>\<open>step_over\<close> after a start whose pause is \<^verbatim>\<open>p1\<close>, with the target exiting: the
  handler reports completion, closes the client and clears the handles, the script
  catalog and the console buffer, but the pause catalog still holds \<^verbatim>\<open>p1\<close> and the
  current pause id is still \<^verbatim>\<open>p1\<close>; \<^verbatim>\<open>resume_execution\<close> on the same input clears both.
\<close>

theorem step_over_exit_keeps_pause_catalog:
  "response (step_over no_context exited_cleanly no_properties sample_started)
     = PlainText ''Execution resumed until completion. Process exited with code 0.''
   \<and> effects (step_over no_context exited_cleanly no_properties sample_started)
       = [Sent StepOver, Close]
   \<and> nodeDebugClient (after (step_over no_context exited_cleanly no_properties sample_started)) = None
   \<and> nodeProcess (after (step_over no_context exited_cleanly no_properties sample_started)) = None
   \<and> pauseMap (after (step_over no_context exited_cleanly no_properties sample_started)) ''p1''
       = Some sample_pause
   \<and> currentPauseId (after (step_over no_context exited_cleanly no_properties sample_started))
       = Some ''p1''
   \<and> pauseMap (after (resume_execution no_context exited_cleanly no_properties sample_started)) ''p1''
       = None
   \<and> currentPauseId (after (resume_execution no_context exited_cleanly no_properties sample_started))
       = None"
  by code_simp

section \<open>Named pauses\<close>

text \<open>
  The four handlers that check the selected pause: a named pause that is not in the
  catalog is an invalid pause id, and \<^verbatim>\<open>restart_frame\<close> with an index beyond the call
  frames is an invalid frame index.
\<close>

lemma named_pause_checked:
  assumes "nodeDebugClient s \<noteq> None" and "lastPausedParams s \<noteq> None"
    and "truthy pid" and "pauseMap s (the pid) = None"
  shows "response (restart_frame i pid oc s) = invalid_pause"
    and "response (evaluate_expression expr pid fi rbv target s) = invalid_pause"
    and "response (inspect_scopes n pid fi itp gp s) = invalid_pause"
    and "response (list_call_stack depth pid it s) = invalid_pause"
  using assms
  by (auto simp add: restart_frame_def evaluate_expression_def inspect_scopes_def
        list_call_stack_def select_pause_def reply_def Let_def)

lemma restart_frame_index_checked:
  assumes "nodeDebugClient s \<noteq> None" and "lastPausedParams s \<noteq> None"
    and "select_pause pid s = Some pause" and "length (callFrames pause) \<le> i"
  shows "response (restart_frame i pid oc s) = invalid_frame"
  using assms by (auto simp add: restart_frame_def nth_opt_def reply_def)

text \<open>
  C9. \<^verbatim>\<open>get_pause_info\<close> with the pause id \<^verbatim>\<open>p99\<close>, which is not in the catalog of a
  session paused at \<^verbatim>\<open>p1\<close>: the handler dereferences the missing pause and reports the
  TypeError of the runtime as a failure to get the pause info, not the invalid pause id
  that \<^verbatim>\<open>restart_frame\<close>, \<^verbatim>\<open>evaluate_expression\<close>, \<^verbatim>\<open>inspect_scopes\<close> and
  \<^verbatim>\<open>list_call_stack\<close> report on the same input.
\<close>

theorem get_pause_info_unknown_pause:
  "pauseMap sample_started ''p99'' = None
   \<and> response (get_pause_info (Some ''p99'') sample_started)
       = ErrorText (''Error: Failed to get pause info - '' @ type_error ''callFrames'')
   \<and> response (get_pause_info (Some ''p99'') sample_started) \<noteq> invalid_pause
   \<and> response (restart_frame 0 (Some ''p99'') (RestartPaused [] sample_pause) sample_started)
       = invalid_pause
   \<and> response (evaluate_expression ''a'' (Some ''p99'') None None
        (Rejected ''unused'') sample_started) = invalid_pause
   \<and> response (inspect_scopes None (Some ''p99'') None None no_properties sample_started)
       = invalid_pause
   \<and> response (list_call_stack None (Some ''p99'') False sample_started) = invalid_pause
   \<and> response (restart_frame 1 None (RestartPaused [] sample_pause) sample_started)
       = invalid_frame"
  by code_simp

section \<open>Logpoint conditions\<close>

lemma unescaped_backtick_plain:
  "c \<noteq> backslash \<Longrightarrow> c \<noteq> backtick \<Longrightarrow> unescaped_backtick (c # cs) = unescaped_backtick cs"
  by (cases cs) simp_all

text \<open>In a message without backslashes every backtick of the result is escaped.\<close>

lemma escape_backticks_escapes:
  "backslash \<notin> set msg \<Longrightarrow> \<not> unescaped_backtick (escape_backticks msg)"
proof (induction msg)
  case Nil
  show ?case by (simp add: escape_backticks_def)
next
  case (Cons c cs)
  then have ih: "\<not> unescaped_backtick (escape_backticks cs)" and c: "c \<noteq> backslash" by auto
  show ?case
  proof (cases "c = backtick")
    case True
    with ih show ?thesis by (simp add: escape_backticks_def)
  next
    case False
    with c have "unescaped_backtick (c # escape_backticks cs) = unescaped_backtick (escape_backticks cs)"
      by (rule unescaped_backtick_plain)
    with ih False show ?thesis by (simp add: escape_backticks_def)
  qed
qed

text \<open>Without braces the second replacement changes nothing.\<close>

lemma interpolate_plain: "CHR ''{'' \<notin> set msg \<Longrightarrow> interpolate msg = msg"
  by (induction msg) auto

text \<open>
  C6. The message made of a backslash and a backtick: the replacement puts a backslash
  before the backtick, which pairs with the backslash of the message, so the backtick of
  the message is not escaped and ends the template literal inside
  \<^verbatim>\<open>console.log(...)\<close> early. The installed condition does not print the message.
\<close>

theorem logpoint_backslash_backtick:
  "escape_backticks [backslash, backtick] = [backslash, backslash, backtick]
   \<and> toCondition [backslash, backtick]
       = ''console.log('' @ [backtick, backslash, backslash, backtick, backtick] @ ''); false''
   \<and> unescaped_backtick (interpolate (escape_backticks [backslash, backtick]))"
  by code_simp

section \<open>Locators of the breakpoint tools\<close>

text \<open>
  C7, as stated, fails: with both a file path and a URL regex the handlers set the
  breakpoint by the regex and report no error.
\<close>

theorem both_locators_counterexample:
  "response (set_breakpoint_condition both_locators ''x > 0'' (Reply sample_bp_reply) sample_started)
     = Content (BreakpointPayload ''2:2:0:sample''
         [\<lparr>scriptId = ''7'', lineNumber = 2, columnNumber = Some 4\<rparr>] False)
   \<and> response (set_breakpoint_condition both_locators ''x > 0'' (Reply sample_bp_reply) sample_started)
       \<noteq> missing_locator
   \<and> effects (set_breakpoint_condition both_locators ''x > 0'' (Reply sample_bp_reply) sample_started)
       = [Sent (SetBreakpointByUrl None (Some ''sample.js$'') 2 0 (Some ''x > 0''))]
   \<and> response (add_logpoint both_locators ''hit'' (Reply sample_bp_reply) sample_started)
       \<noteq> missing_locator
   \<and> effects (add_logpoint both_locators ''hit'' (Reply sample_bp_reply) sample_started) \<noteq> []"
  by code_simp

text \<open>
  C7, amended. In an active session \<^verbatim>\<open>set_breakpoint_condition\<close> and \<^verbatim>\<open>add_logpoint\<close>
  need at least one locator: with neither a non-empty URL regex nor a non-empty file path
  the call fails with the missing-locator error and nothing is sent to the target; with a
  URL regex the breakpoint is set by the regex, whether or not a file path is given too;
  with a file path alone it is set by the file URL.
\<close>

theorem breakpoint_locators:
  assumes "nodeDebugClient s \<noteq> None"
  shows "(\<not> truthy (urlRegex params) \<and> \<not> truthy (filePath params) \<longrightarrow>
            response (set_breakpoint_condition params cond target s) = missing_locator
          \<and> effects (set_breakpoint_condition params cond target s) = []
          \<and> response (add_logpoint params message target s) = missing_locator
          \<and> effects (add_logpoint params message target s) = [])
       \<and> (truthy (urlRegex params) \<longrightarrow>
            (\<exists>l c. effects (set_breakpoint_condition params cond target s)
                      = [Sent (SetBreakpointByUrl None (urlRegex params) l c (Some cond))])
          \<and> (\<exists>l c. effects (add_logpoint params message target s)
                      = [Sent (SetBreakpointByUrl None (urlRegex params) l c
                                 (Some (toCondition message)))])
          \<and> response (set_breakpoint_condition params cond target s) \<noteq> missing_locator
          \<and> response (add_logpoint params message target s) \<noteq> missing_locator)
       \<and> (\<not> truthy (urlRegex params) \<and> truthy (filePath params) \<longrightarrow>
            (\<exists>l c. effects (set_breakpoint_condition params cond target s)
                      = [Sent (SetBreakpointByUrl (Some (file_url (the (filePath params)))) None
                                 l c (Some cond))])
          \<and> (\<exists>l c. effects (add_logpoint params message target s)
                      = [Sent (SetBreakpointByUrl (Some (file_url (the (filePath params)))) None
                                 l c (Some (toCondition message)))])
          \<and> response (set_breakpoint_condition params cond target s) \<noteq> missing_locator
          \<and> response (add_logpoint params message target s) \<noteq> missing_locator)"
proof -
  from assms obtain cl where active: "nodeDebugClient s = Some cl" by auto
  show ?thesis
    by (cases target)
       (simp_all add: active set_breakpoint_condition_def add_logpoint_def reply_def Let_def
          missing_locator_def)
qed

theorem breakpoint_locators_witness:
  "nodeDebugClient sample_started \<noteq> None
   \<and> truthy (urlRegex both_locators)
   \<and> (\<exists>l c. effects (set_breakpoint_condition both_locators ''x > 0'' (Reply sample_bp_reply)
                 sample_started)
               = [Sent (SetBreakpointByUrl None (Some ''sample.js$'') l c (Some ''x > 0''))])"
proof -
  have h: "nodeDebugClient sample_started \<noteq> None" by code_simp
  have t: "truthy (urlRegex both_locators)" by code_simp
  have u: "urlRegex both_locators = Some ''sample.js$''" by code_simp
  from breakpoint_locators [OF h, of both_locators "''x > 0''" "Reply sample_bp_reply"] h t u
  show ?thesis by simp
qed

section \<open>Failure of the start tool\<close>




section \<open>Tools without a session\<close>

text \<open>
  C3, as stated, fails: after a stop, \<^verbatim>\<open>read_console\<close> and \<^verbatim>\<open>list_scripts\<close> succeed with
  empty lists, and \<^verbatim>\<open>get_pause_info\<close> reports the missing pause, which is another error
  text than the missing session.
\<close>

theorem after_stop_counterexample:
  "response (stop_debug_session (Reply ()) sample_started) = PlainText ''Debug session terminated.''
   \<and> response (read_console stopped) = Content (ConsolePayload [])
   \<and> response (list_scripts stopped) = Content (ScriptsPayload [])
   \<and> response (get_pause_info None stopped) = no_pause
   \<and> no_pause \<noteq> no_session"
  by code_simp

lemma stopped_state:
  assumes "response (stop_debug_session closing s) = PlainText ''Debug session terminated.''"
  shows "nodeDebugClient (after (stop_debug_session closing s)) = None"
    and "lastPausedParams (after (stop_debug_session closing s)) = None"
    and "scriptIdToUrl (after (stop_debug_session closing s)) = []"
    and "consoleMessages (after (stop_debug_session closing s)) = []"
  using assms
  by (simp_all add: stop_debug_session_def reply_def Let_def split: option.splits rpc.splits)

lemma perform_without_session:
  assumes "nodeDebugClient s = None" and "lastPausedParams s = None"
    and "scriptIdToUrl s = []" and "consoleMessages s = []"
    and "without_session c = Some r"
  shows "response (perform c s) = r"
  using assms
  by (cases c)
     (simp_all add: set_breakpoint_def set_breakpoint_condition_def add_logpoint_def
        set_exception_breakpoints_def blackbox_scripts_def list_scripts_def read_console_def
        get_script_source_def get_object_properties_def list_call_stack_def get_pause_info_def
        continue_to_location_def restart_frame_def resume_execution_def step_over_def
        step_into_def step_out_def step_tool_def evaluate_expression_def inspect_scopes_def
        reply_def)

text \<open>
  C3, amended. After \<^verbatim>\<open>stop_debug_session\<close> has reported the end of the session, every
  tool other than \<^verbatim>\<open>start_node_debug\<close>, \<^verbatim>\<open>stop_debug_session\<close>, \<^verbatim>\<open>list_scripts\<close> and
  \<^verbatim>\<open>read_console\<close> returns an error and not a success: the no-session error, or for
  \<^verbatim>\<open>restart_frame\<close>, \<^verbatim>\<open>evaluate_expression\<close>, \<^verbatim>\<open>inspect_scopes\<close>, \<^verbatim>\<open>list_call_stack\<close> and
  \<^verbatim>\<open>get_pause_info\<close> the no-pause error; \<^verbatim>\<open>list_scripts\<close> and \<^verbatim>\<open>read_console\<close> succeed
  with empty lists.
\<close>

theorem tools_after_stop:
  assumes "response (stop_debug_session closing s) = PlainText ''Debug session terminated.''"
    and "without_session c = Some r"
  shows "response (perform c (after (stop_debug_session closing s))) = r"
  using stopped_state [OF assms(1)] assms(2) by (intro perform_without_session)

theorem tools_after_stop_witness:
  "response (stop_debug_session (Reply ()) sample_started) = PlainText ''Debug session terminated.''
   \<and> without_session (CallResume no_context exited_cleanly no_properties) = Some no_session
   \<and> response (perform (CallResume no_context exited_cleanly no_properties) stopped) = no_session"
proof -
  have h: "response (stop_debug_session (Reply ()) sample_started)
             = PlainText ''Debug session terminated.''" by code_simp
  have w: "without_session (CallResume no_context exited_cleanly no_properties) = Some no_session"
    by simp
  from tools_after_stop [OF h w] h w show ?thesis by (simp add: stopped_def)
qed

section \<open>Scope listings\<close>

text \<open>
  C4, as stated, fails: \<^verbatim>\<open>inspect_scopes\<close> with \<^verbatim>\<open>maxProps = 20\<close> lists twenty variables
  of a local scope, and \<^verbatim>\<open>resume_execution\<close> with \<^verbatim>\<open>includeScopes\<close> lists fifteen
  variables of the global scope, without a truncation flag.
\<close>

theorem scope_listing_counterexample:
  "listed_scopes (response (inspect_scopes (Some 20) None None (Some False) twenty_properties
      scoped_started)) = [(''local'', 20, False), (''global'', 5, True)]
   \<and> listed_scopes (response (resume_execution with_scopes (PausedFirst [] scoped_pause)
        twenty_properties scoped_started)) = [(''local'', 15, False), (''global'', 15, False)]"
  by code_simp

lemma build_scopes_bound:
  "build_scopes gp scs = (es, Inr ls) \<Longrightarrow>
     map sl_type ls = map scope_type (listable scs) \<and> (\<forall>l \<in> set ls. length (variables l) \<le> 15)"
proof (induction scs arbitrary: es ls)
  case Nil
  then show ?case by (auto simp add: listable_def)
next
  case (Cons sc scs)
  show ?case
  proof (cases "scope_handle sc")
    case None
    with Cons show ?thesis by (simp add: listable_def)
  next
    case (Some oid)
    note h = this
    show ?thesis
    proof (cases "gp oid")
      case (Rejected m)
      with h Cons.prems show ?thesis by simp
    next
      case (Reply props)
      obtain es' r where rest: "build_scopes gp scs = (es', r)" by (cases "build_scopes gp scs")
      show ?thesis
      proof (cases r)
        case (Inl m)
        with h Reply rest Cons.prems show ?thesis by simp
      next
        case (Inr ls')
        with rest Cons.IH [of es' ls'] have ih:
          "map sl_type ls' = map scope_type (listable scs)"
          "\<forall>l \<in> set ls'. length (variables l) \<le> 15" by simp_all
        from h Reply rest Inr Cons.prems
        have "ls = \<lparr>sl_type = scope_type sc, variables = map summarize_property (take 15 props),
                     truncated = False\<rparr> # ls'" by simp
        with ih h show ?thesis by (simp add: listable_def)
      qed
    qed
  qed
qed

lemma inspect_loop_bound:
  "inspect_loop m gp scs = (es, Inr ls) \<Longrightarrow>
     map sl_type ls = map scope_type (listable scs)
     \<and> (\<forall>l \<in> set ls. length (variables l) \<le> m
            \<and> (sl_type l = ''global'' \<longrightarrow> length (variables l) \<le> 5 \<and> truncated l))"
proof (induction scs arbitrary: es ls)
  case Nil
  then show ?case by (auto simp add: listable_def)
next
  case (Cons sc scs)
  show ?case
  proof (cases "scope_handle sc")
    case None
    with Cons show ?thesis by (simp add: listable_def)
  next
    case (Some oid)
    note h = this
    show ?thesis
    proof (cases "gp oid")
      case (Rejected msg)
      with h Cons.prems show ?thesis by simp
    next
      case (Reply result)
      obtain es' r where rest: "inspect_loop m gp scs = (es', r)" by (cases "inspect_loop m gp scs")
      show ?thesis
      proof (cases r)
        case (Inl msg)
        with h Reply rest Cons.prems show ?thesis by simp
      next
        case (Inr ls')
        with rest Cons.IH [of es' ls'] have ih:
          "map sl_type ls' = map scope_type (listable scs)"
          "\<forall>l \<in> set ls'. length (variables l) \<le> m
              \<and> (sl_type l = ''global'' \<longrightarrow> length (variables l) \<le> 5 \<and> truncated l)"
          by simp_all
        from h Reply rest Inr Cons.prems
        have "ls = (if scope_type sc = ''global''
                    then \<lparr>sl_type = scope_type sc, variables = take 5 (listProps m result),
                          truncated = True\<rparr>
                    else \<lparr>sl_type = scope_type sc, variables = listProps m result,
                          truncated = False\<rparr>) # ls'" by simp
        with ih h show ?thesis by (auto simp add: listable_def listProps_def)
      qed
    qed
  qed
qed

lemma pause_context_listing:
  "\<forall>(ty, n, tr) \<in> set (listed_scopes (response (pause_context label opts gp ev es s))). n \<le> 15"
proof (cases "callFrames ev")
  case Nil
  then show ?thesis by (simp add: pause_context_def reply_def failed_def)
next
  case (Cons topFrame rest)
  obtain eg r where b: "build_scopes gp (scopeChain topFrame) = (eg, r)"
    by (cases "build_scopes gp (scopeChain topFrame)")
  show ?thesis
  proof (cases r)
    case (Inl m)
    with Cons b show ?thesis by (simp add: pause_context_def reply_def failed_def Let_def)
  next
    case (Inr ls)
    with b build_scopes_bound [of gp "scopeChain topFrame" eg ls]
    have "\<forall>l \<in> set ls. length (variables l) \<le> 15" by simp
    with Cons b Inr show ?thesis by (simp add: pause_context_def reply_def Let_def)
  qed
qed

lemma resume_execution_listing:
  "\<forall>(ty, n, tr) \<in> set (listed_scopes (response (resume_execution opts race gp s))). n \<le> 15"
proof (cases "nodeDebugClient s")
  case None
  then show ?thesis by (simp add: resume_execution_def reply_def no_session_def)
next
  case (Some cl)
  note active = this
  show ?thesis
  proof (cases race)
    case (CommandRejected m)
    with active show ?thesis by (simp add: resume_execution_def reply_def failed_def)
  next
    case (PausedFirst evs ev)
    obtain ed s2 where d: "dispatch_paused ev (deliver evs (register_paused ControlListener s)) = (ed, s2)"
      by (cases "dispatch_paused ev (deliver evs (register_paused ControlListener s))")
    from pause_context_listing [of "''Resume''" opts gp ev "Sent Resume # ed" s2] active PausedFirst d
    show ?thesis by (simp add: resume_execution_def)
  next
    case (ExitedFirst evs code closing)
    with active show ?thesis
      by (cases closing) (simp_all add: resume_execution_def reply_def failed_def)
  qed
qed

lemma step_tool_listing:
  "\<forall>(ty, n, tr) \<in> set (listed_scopes (response (step_tool cmd label opts race gp s))). n \<le> 15"
proof (cases "nodeDebugClient s")
  case None
  then show ?thesis by (simp add: step_tool_def reply_def no_session_def)
next
  case (Some cl)
  note active = this
  show ?thesis
  proof (cases race)
    case (CommandRejected m)
    with active show ?thesis by (simp add: step_tool_def reply_def failed_def)
  next
    case (PausedFirst evs ev)
    obtain ed s2 where d: "dispatch_paused ev (deliver evs (register_paused ControlListener s)) = (ed, s2)"
      by (cases "dispatch_paused ev (deliver evs (register_paused ControlListener s))")
    from pause_context_listing [of label opts gp ev "Sent cmd # ed" s2] active PausedFirst d
    show ?thesis by (simp add: step_tool_def)
  next
    case (ExitedFirst evs code closing)
    with active show ?thesis
      by (cases closing) (simp_all add: step_tool_def reply_def failed_def)
  qed
qed

lemma inspect_scopes_listing:
  "\<forall>(ty, n, tr) \<in> set (listed_scopes (response (inspect_scopes maxProps pid i itp gp s))).
      n \<le> (case maxProps of None \<Rightarrow> 15 | Some m \<Rightarrow> m) \<and> (ty = ''global'' \<longrightarrow> n \<le> 5 \<and> tr)"
proof -
  define m where "m = (case maxProps of None \<Rightarrow> 15 | Some m \<Rightarrow> m)"
  define k where "k = (case i of None \<Rightarrow> 0 | Some j \<Rightarrow> j)"
  have unfolded: "inspect_scopes maxProps pid i itp gp s =
      (if nodeDebugClient s = None \<or> lastPausedParams s = None then reply no_pause [] s
       else (case select_pause pid s of
               None \<Rightarrow> reply invalid_pause [] s
             | Some pause \<Rightarrow>
                 (case nth_opt (callFrames pause) k of
                    None \<Rightarrow> reply (Thrown (type_error ''url'')) [] s
                  | Some fr \<Rightarrow>
                      (case inspect_loop m gp (scopeChain fr) of
                         (es, Inl msg) \<Rightarrow> reply (Thrown msg) es s
                       | (es, Inr scs) \<Rightarrow>
                           (case inspect_this m itp gp fr of
                              (et, Inl msg) \<Rightarrow> reply (Thrown msg) (es @ et) s
                            | (et, Inr this) \<Rightarrow>
                                reply (Content (ScopesPayload (summarizeFrame s fr) this scs))
                                  (es @ et) s)))))"
    by (simp only: inspect_scopes_def Let_def m_def k_def)
  show ?thesis
  proof (cases "nodeDebugClient s = None \<or> lastPausedParams s = None")
    case True
    then show ?thesis by (simp add: unfolded reply_def no_pause_def)
  next
    case False
    then obtain cl lp where "nodeDebugClient s = Some cl" "lastPausedParams s = Some lp"
      by auto
    note guard = this
    show ?thesis
    proof (cases "select_pause pid s")
      case None
      with guard show ?thesis by (simp add: unfolded reply_def invalid_pause_def)
    next
      case (Some pause)
      note sel = this
      show ?thesis
      proof (cases "nth_opt (callFrames pause) k")
        case None
        with guard sel show ?thesis by (simp add: unfolded reply_def)
      next
        case (Some fr)
        note frame = this
        obtain es r where loop: "inspect_loop m gp (scopeChain fr) = (es, r)"
          by (cases "inspect_loop m gp (scopeChain fr)")
        obtain et t where preview: "inspect_this m itp gp fr = (et, t)"
          by (cases "inspect_this m itp gp fr")
        show ?thesis
        proof (cases r)
          case (Inl msg)
          with guard sel frame loop show ?thesis by (simp add: unfolded reply_def)
        next
          case (Inr scs)
          with loop inspect_loop_bound [of m gp "scopeChain fr" es scs]
          have bound: "\<forall>l \<in> set scs. length (variables l) \<le> m
                         \<and> (sl_type l = ''global'' \<longrightarrow> length (variables l) \<le> 5 \<and> truncated l)"
            by simp
          show ?thesis
          proof (cases t)
            case (Inl msg)
            with guard sel frame loop \<open>r = Inr scs\<close> preview show ?thesis
              by (simp add: unfolded reply_def)
          next
            case (Inr ts)
            with guard sel frame loop \<open>r = Inr scs\<close> preview bound show ?thesis
              by (auto simp add: unfolded reply_def m_def)
          qed
        qed
      qed
    qed
  qed
qed

text \<open>
  C4, amended. \<^verbatim>\<open>inspect_scopes\<close> lists at most \<^verbatim>\<open>maxProps\<close> own properties of each scope
  (15 when the parameter is absent), and for a global scope at most 5, with the
  truncation flag; \<^verbatim>\<open>resume_execution\<close>, \<^verbatim>\<open>step_over\<close>, \<^verbatim>\<open>step_into\<close> and \<^verbatim>\<open>step_out\<close>
  called with \<^verbatim>\<open>includeScopes\<close> list at most 15 own properties of each scope.
\<close>

theorem scope_listing_bounds:
  "(\<forall>(ty, n, tr) \<in> set (listed_scopes (response (inspect_scopes maxProps pid i itp gp s))).
       n \<le> (case maxProps of None \<Rightarrow> 15 | Some m \<Rightarrow> m) \<and> (ty = ''global'' \<longrightarrow> n \<le> 5 \<and> tr))
   \<and> (\<forall>(ty, n, tr) \<in> set (listed_scopes (response (resume_execution opts race gp s))). n \<le> 15)
   \<and> (\<forall>(ty, n, tr) \<in> set (listed_scopes (response (step_over opts race gp s))). n \<le> 15)
   \<and> (\<forall>(ty, n, tr) \<in> set (listed_scopes (response (step_into opts race gp s))). n \<le> 15)
   \<and> (\<forall>(ty, n, tr) \<in> set (listed_scopes (response (step_out opts race gp s))). n \<le> 15)"
  using inspect_scopes_listing [of maxProps pid i itp gp s] resume_execution_listing [of opts race gp s]
    step_tool_listing [of StepOver "''Step over''" opts race gp s]
    step_tool_listing [of StepInto "''Step into''" opts race gp s]
    step_tool_listing [of StepOut "''Step out''" opts race gp s]
  by (simp only: step_over_def step_into_def step_out_def simp_thms)

theorem scope_listing_bounds_witness:
  "(''global'', 5, True) \<in> set (listed_scopes (response (inspect_scopes (Some 20) None None
       (Some False) twenty_properties scoped_started)))
   \<and> (5::nat) \<le> 20
   \<and> (''global'', 15, False) \<in> set (listed_scopes (response (step_over with_scopes
       (PausedFirst [] scoped_pause) twenty_properties scoped_started)))
   \<and> (15::nat) \<le> 15"
proof -
  have a: "listed_scopes (response (inspect_scopes (Some 20) None None (Some False)
             twenty_properties scoped_started)) = [(''local'', 20, False), (''global'', 5, True)]"
    by code_simp
  have b: "listed_scopes (response (step_over with_scopes (PausedFirst [] scoped_pause)
             twenty_properties scoped_started)) = [(''local'', 15, False), (''global'', 15, False)]"
    by code_simp
  from scope_listing_bounds [of "Some 20" None None "Some False" twenty_properties scoped_started
         with_scopes "PausedFirst [] scoped_pause"]
  show ?thesis unfolding a b by simp
qed

section \<open>Line and column numbers at the boundary\<close>

text \<open>
  C8, as stated, fails: \<^verbatim>\<open>set_breakpoint_condition\<close> called with line 3 and column 5
  sends the line 2 and the column 5 to the target, and its response carries the location
  of the target as it is, line 2 and column 4.
\<close>

theorem breakpoint_coordinates_counterexample:
  "effects (set_breakpoint_condition column_five ''x > 0'' (Reply sample_bp_reply) sample_started)
     = [Sent (SetBreakpointByUrl (Some ''file:///app/sample.js'') None 2 5 (Some ''x > 0''))]
   \<and> response (set_breakpoint_condition column_five ''x > 0'' (Reply sample_bp_reply) sample_started)
       = Content (BreakpointPayload ''2:2:0:sample''
           [\<lparr>scriptId = ''7'', lineNumber = 2, columnNumber = Some 4\<rparr>] False)"
  by code_simp

lemma converted_summarizeFrame: "converted (summarizeFrame s fr) fr"
  by (simp add: converted_def summarizeFrame_def)

lemma dispatch_sends_nothing: "Sent cmd \<notin> set (fst (dispatch_paused ev s))"
  by (auto simp add: dispatch_paused_def run_listeners_effects split: option.splits)

lemma dispatch_sends_nothing_eq: "dispatch_paused ev s = (ed, s') \<Longrightarrow> Sent cmd \<notin> set ed"
  using dispatch_sends_nothing [of cmd ev s] by simp

lemma set_breakpoint_sent:
  "Sent cmd \<in> set (effects (set_breakpoint path ln target s)) \<Longrightarrow>
     cmd = SetBreakpointByUrl (Some (file_url path)) None (ln - 1) 0 None"
  by (simp add: set_breakpoint_def reply_def Let_def split: if_splits rpc.splits)

lemma set_breakpoint_condition_sent:
  "Sent cmd \<in> set (effects (set_breakpoint_condition params cond target s)) \<Longrightarrow>
     \<exists>u r c. cmd = SetBreakpointByUrl u r (line params - 1) c (Some cond)"
  by (simp add: set_breakpoint_condition_def reply_def Let_def split: if_splits rpc.splits)

lemma add_logpoint_sent:
  "Sent cmd \<in> set (effects (add_logpoint params message target s)) \<Longrightarrow>
     \<exists>u r c. cmd = SetBreakpointByUrl u r (line params - 1) c (Some (toCondition message))"
  by (simp add: add_logpoint_def reply_def Let_def split: if_splits rpc.splits)

lemma continue_to_location_sent:
  assumes "Sent cmd \<in> set (effects (continue_to_location path ln col race s))"
  shows "\<exists>sid. cmd = ContinueToLocation sid (ln - 1) ((case col of None \<Rightarrow> 1 | Some c \<Rightarrow> c) - 1)"
proof (cases "nodeDebugClient s")
  case None
  with assms show ?thesis by (simp add: continue_to_location_def reply_def)
next
  case (Some cl)
  note active = this
  show ?thesis
  proof (cases "truthy (find_script s (file_url path))")
    case False
    with active assms show ?thesis by (simp add: continue_to_location_def reply_def Let_def)
  next
    case True
    note found = this
    show ?thesis
    proof (cases race)
      case (CommandRejected m)
      with active found assms show ?thesis
        by (simp add: continue_to_location_def reply_def Let_def)
    next
      case (PausedFirst evs ev)
      obtain ed s2 where d: "dispatch_paused ev (deliver evs (register_paused ControlListener s)) = (ed, s2)"
        by (cases "dispatch_paused ev (deliver evs (register_paused ControlListener s))")
      from dispatch_sends_nothing_eq [OF d] have "Sent cmd \<notin> set ed" .
      with active found PausedFirst d assms show ?thesis
        by (simp add: continue_to_location_def reply_def Let_def split: list.splits)
    next
      case (ExitedFirst evs code closing)
      with active found assms show ?thesis
        by (simp add: continue_to_location_def reply_def Let_def)
    qed
  qed
qed

lemma breakpoint_locations_passed:
  "response (set_breakpoint_condition params cond (Reply r) s) = Content p \<Longrightarrow>
     p = BreakpointPayload (breakpointId r) (locations r) False"
  "response (add_logpoint params message (Reply r) s) = Content p \<Longrightarrow>
     p = BreakpointPayload (breakpointId r) (locations r) True"
  by (simp_all add: set_breakpoint_condition_def add_logpoint_def reply_def Let_def
        no_session_def missing_locator_def split: if_splits)

lemma frames_from_plain:
  "frames_from (ErrorText m) frs" "frames_from (PlainText m) frs" "frames_from (Thrown m) frs"
  "frames_from (Content (StatusPayload m)) frs"
  "frames_from (Content (BreakpointPayload b ls k)) frs"
  "frames_from (Content (OkState m)) frs"
  "frames_from (Content (OkPatterns ps)) frs"
  "frames_from (Content (ScriptsPayload scs)) frs"
  "frames_from (Content (ScriptSourcePayload a b' c)) frs"
  "frames_from (Content (PropertiesPayload vs)) frs"
  "frames_from (Content (ConsolePayload ms)) frs"
  "frames_from (Content (EvalPayload v ms)) frs"
  "frames_from no_session frs" "frames_from no_pause frs" "frames_from invalid_pause frs"
  "frames_from invalid_frame frs" "frames_from missing_locator frs"
  "frames_from (start_failed m) frs" "frames_from (failed l m) frs"
  by (simp_all add: frames_from_def no_session_def no_pause_def invalid_pause_def
        invalid_frame_def missing_locator_def start_failed_def failed_def)

lemma frames_from_top:
  "fr \<in> set frs \<Longrightarrow>
     frames_from (Content (PausePayload
       \<lparr>status = st, pauseId = p, frame = summarizeFrame s fr, consoleOutput = None,
        stack = None, scopes = None\<rparr>)) frs"
proof -
  assume "fr \<in> set frs"
  then have "\<exists>x \<in> set frs. converted (summarizeFrame s fr) x"
    using converted_summarizeFrame by blast
  then show ?thesis by (simp add: frames_from_def)
qed

lemma frames_from_payload:
  assumes "fr \<in> set frs" and "set xs \<subseteq> set frs"
  shows "frames_from (Content (PausePayload
           \<lparr>status = st, pauseId = p, frame = summarizeFrame s fr, consoleOutput = co,
            stack = (if b then Some (map (summarizeFrame s) xs) else None), scopes = sc\<rparr>)) frs"
proof -
  have top: "\<exists>x \<in> set frs. converted (summarizeFrame s fr) x"
    using assms(1) converted_summarizeFrame by blast
  have below: "\<forall>f \<in> set (map (summarizeFrame s) xs). \<exists>x \<in> set frs. converted f x"
    using assms(2) converted_summarizeFrame by fastforce
  from top below show ?thesis by (auto simp add: frames_from_def)
qed

lemma pause_context_frames:
  "frames_from (response (pause_context label opts gp ev es s)) (callFrames ev)"
proof (cases "callFrames ev")
  case Nil
  then show ?thesis by (simp add: pause_context_def reply_def frames_from_plain)
next
  case (Cons topFrame rest)
  obtain eg r where b: "build_scopes gp (scopeChain topFrame) = (eg, r)"
    by (cases "build_scopes gp (scopeChain topFrame)")
  from Cons b show ?thesis
    by (cases r)
       (simp_all add: pause_context_def reply_def Let_def frames_from_plain frames_from_payload)
qed

lemma resume_execution_frames:
  "frames_from (response (resume_execution opts race gp s)) (raced_frames race)"
proof (cases "nodeDebugClient s")
  case None
  then show ?thesis by (simp add: resume_execution_def reply_def frames_from_plain)
next
  case (Some cl)
  note active = this
  show ?thesis
  proof (cases race)
    case (CommandRejected m)
    with active show ?thesis by (simp add: resume_execution_def reply_def frames_from_plain)
  next
    case (PausedFirst evs ev)
    obtain ed s2 where d: "dispatch_paused ev (deliver evs (register_paused ControlListener s)) = (ed, s2)"
      by (cases "dispatch_paused ev (deliver evs (register_paused ControlListener s))")
    from pause_context_frames [of "''Resume''" opts gp ev "Sent Resume # ed" s2] active PausedFirst d
    show ?thesis by (simp add: resume_execution_def)
  next
    case (ExitedFirst evs code closing)
    with active show ?thesis
      by (cases closing) (simp_all add: resume_execution_def reply_def frames_from_plain)
  qed
qed

lemma step_tool_frames:
  "frames_from (response (step_tool cmd label opts race gp s)) (raced_frames race)"
proof (cases "nodeDebugClient s")
  case None
  then show ?thesis by (simp add: step_tool_def reply_def frames_from_plain)
next
  case (Some cl)
  note active = this
  show ?thesis
  proof (cases race)
    case (CommandRejected m)
    with active show ?thesis by (simp add: step_tool_def reply_def frames_from_plain)
  next
    case (PausedFirst evs ev)
    obtain ed s2 where d: "dispatch_paused ev (deliver evs (register_paused ControlListener s)) = (ed, s2)"
      by (cases "dispatch_paused ev (deliver evs (register_paused ControlListener s))")
    from pause_context_frames [of label opts gp ev "Sent cmd # ed" s2] active PausedFirst d
    show ?thesis by (simp add: step_tool_def)
  next
    case (ExitedFirst evs code closing)
    with active show ?thesis
      by (cases closing) (simp_all add: step_tool_def reply_def frames_from_plain)
  qed
qed

lemma continue_to_location_frames:
  "frames_from (response (continue_to_location path ln col race s)) (raced_frames race)"
proof (cases "nodeDebugClient s")
  case None
  then show ?thesis by (simp add: continue_to_location_def reply_def frames_from_plain)
next
  case (Some cl)
  note active = this
  show ?thesis
  proof (cases "truthy (find_script s (file_url path))")
    case False
    with active show ?thesis
      by (simp add: continue_to_location_def reply_def Let_def frames_from_plain)
  next
    case True
    note found = this
    show ?thesis
    proof (cases race)
      case (CommandRejected m)
      with active found show ?thesis
        by (simp add: continue_to_location_def reply_def Let_def frames_from_plain)
    next
      case (PausedFirst evs ev)
      obtain ed s2 where d: "dispatch_paused ev (deliver evs (register_paused ControlListener s)) = (ed, s2)"
        by (cases "dispatch_paused ev (deliver evs (register_paused ControlListener s))")
      from active found PausedFirst d show ?thesis
        by (cases "callFrames ev")
           (simp_all add: continue_to_location_def reply_def Let_def frames_from_plain
              frames_from_top)
    next
      case (ExitedFirst evs code closing)
      with active found show ?thesis
        by (simp add: continue_to_location_def reply_def Let_def frames_from_plain)
    qed
  qed
qed

lemma restart_frame_frames:
  "frames_from (response (restart_frame i pid oc s)) (source_frames (CallRestartFrame i pid oc) s)"
proof (cases "nodeDebugClient s = None \<or> lastPausedParams s = None")
  case True
  then show ?thesis by (auto simp add: restart_frame_def reply_def frames_from_plain)
next
  case False
  then obtain cl lp where "nodeDebugClient s = Some cl" "lastPausedParams s = Some lp"
    by auto
  note active = this
  show ?thesis
  proof (cases "select_pause pid s")
    case None
    with active show ?thesis by (simp add: restart_frame_def reply_def frames_from_plain)
  next
    case (Some pause)
    note sel = this
    show ?thesis
    proof (cases "nth_opt (callFrames pause) i")
      case None
      with active sel show ?thesis by (simp add: restart_frame_def reply_def frames_from_plain)
    next
      case (Some fr)
      note target = this
      show ?thesis
      proof (cases oc)
        case (RestartRejected m)
        with active sel target show ?thesis
          by (simp add: restart_frame_def reply_def Let_def frames_from_plain)
      next
        case (RestartPaused evs ev)
        obtain ed s2 where d: "dispatch_paused ev (deliver evs (register_paused ControlListener s)) = (ed, s2)"
          by (cases "dispatch_paused ev (deliver evs (register_paused ControlListener s))")
        from active sel target RestartPaused d show ?thesis
          by (cases "callFrames ev")
             (simp_all add: restart_frame_def reply_def Let_def frames_from_plain frames_from_top)
      qed
    qed
  qed
qed

lemma start_node_debug_frames:
  "frames_from (response (start_node_debug path child oc s))
     (source_frames (CallStart path child oc) s)"
proof (cases "nodeDebugClient s")
  case (Some cl)
  then show ?thesis by (simp add: start_node_debug_def reply_def frames_from_plain)
next
  case None
  note idle = this
  show ?thesis
  proof (cases oc)
    case (InitialPause evs ev)
    with idle show ?thesis
      by (auto simp add: start_node_debug_def reply_def Let_def frames_from_plain frames_from_top
            split: prod.splits list.splits)
  qed (simp_all add: idle start_node_debug_def reply_def Let_def frames_from_plain)
qed

lemma nth_opt_member: "nth_opt xs i = Some x \<Longrightarrow> x \<in> set xs"
  by (auto simp add: nth_opt_def split: if_splits)

lemma inspect_scopes_frames:
  "frames_from (response (inspect_scopes maxProps pid i itp gp s)) (selected_frames pid s)"
  by (auto simp add: inspect_scopes_def reply_def Let_def frames_from_plain frames_from_def
        selected_frames_def converted_summarizeFrame no_pause_def invalid_pause_def
        split: option.splits prod.splits sum.splits dest!: nth_opt_member)

lemma list_call_stack_frames:
  "frames_from (response (list_call_stack depth pid it s)) (selected_frames pid s)"
  by (auto simp add: list_call_stack_def reply_def frames_from_plain frames_from_def
        selected_frames_def converted_summarizeFrame no_pause_def invalid_pause_def
        split: option.splits dest!: in_set_takeD)

lemma get_pause_info_frames:
  "frames_from (response (get_pause_info pid s)) (selected_frames pid s)"
  by (auto simp add: get_pause_info_def reply_def frames_from_plain frames_from_def
        selected_frames_def converted_summarizeFrame no_pause_def invalid_pause_def
        split: option.splits list.splits)

lemma quiet_tools_frames:
  "frames_from (response (set_breakpoint path ln bt s)) []"
  "frames_from (response (set_breakpoint_condition params cond bt s)) []"
  "frames_from (response (add_logpoint params message bt s)) []"
  "frames_from (response (set_exception_breakpoints st ut s)) []"
  "frames_from (response (blackbox_scripts patterns ut s)) []"
  "frames_from (response (list_scripts s)) []"
  "frames_from (response (read_console s)) []"
  "frames_from (response (get_script_source sid u st' s)) []"
  "frames_from (response (get_object_properties oid n pt s)) []"
  "frames_from (response (stop_debug_session closing s)) []"
  by (simp_all add: set_breakpoint_def set_breakpoint_condition_def add_logpoint_def
        set_exception_breakpoints_def blackbox_scripts_def list_scripts_def read_console_def
        get_script_source_def get_object_properties_def stop_debug_session_def
        reply_def Let_def frames_from_plain split: rpc.splits option.splits)

lemma evaluate_expression_frames:
  "frames_from (response (evaluate_expression expr pid i rbv target s)) []"
  by (simp add: evaluate_expression_def reply_def Let_def frames_from_plain
        split: rpc.splits option.splits)

lemma perform_frames: "frames_from (response (perform c s)) (source_frames c s)"
proof (cases c)
  case (CallStart path child oc)
  then show ?thesis by (simp add: start_node_debug_frames)
next
  case (CallRestartFrame i pid oc)
  then show ?thesis by (simp add: restart_frame_frames)
qed (simp_all add: quiet_tools_frames evaluate_expression_frames resume_execution_frames
       step_tool_frames continue_to_location_frames inspect_scopes_frames
       list_call_stack_frames get_pause_info_frames step_over_def step_into_def step_out_def)

text \<open>
  C8, amended. The line of \<^verbatim>\<open>set_breakpoint\<close>, \<^verbatim>\<open>set_breakpoint_condition\<close>,
  \<^verbatim>\<open>add_logpoint\<close> and \<^verbatim>\<open>continue_to_location\<close> is sent to the target as \<open>line - 1\<close>;
  \<^verbatim>\<open>set_breakpoint\<close> always sends the column 0 and \<^verbatim>\<open>continue_to_location\<close> sends its
  column (1 when absent) minus one. Every frame summary in the response of any tool
  carries the line and the column of a call frame of the target plus one. The breakpoint
  locations in the responses of \<^verbatim>\<open>set_breakpoint_condition\<close> and \<^verbatim>\<open>add_logpoint\<close> are the
  locations of the target, unchanged.
\<close>

theorem coordinates_at_the_boundary:
  "(\<forall>cmd. Sent cmd \<in> set (effects (set_breakpoint path ln target s)) \<longrightarrow>
       cmd = SetBreakpointByUrl (Some (file_url path)) None (ln - 1) 0 None)
   \<and> (\<forall>cmd. Sent cmd \<in> set (effects (set_breakpoint_condition params cond target s)) \<longrightarrow>
         (\<exists>u r c. cmd = SetBreakpointByUrl u r (line params - 1) c (Some cond)))
   \<and> (\<forall>cmd. Sent cmd \<in> set (effects (add_logpoint params message target s)) \<longrightarrow>
         (\<exists>u r c. cmd = SetBreakpointByUrl u r (line params - 1) c (Some (toCondition message))))
   \<and> (\<forall>cmd. Sent cmd \<in> set (effects (continue_to_location path ln col race s)) \<longrightarrow>
         (\<exists>sid. cmd = ContinueToLocation sid (ln - 1)
                         ((case col of None \<Rightarrow> 1 | Some c \<Rightarrow> c) - 1)))
   \<and> frames_from (response (perform call s)) (source_frames call s)
   \<and> (\<forall>r p. response (set_breakpoint_condition params cond (Reply r) s) = Content p \<longrightarrow>
         p = BreakpointPayload (breakpointId r) (locations r) False)
   \<and> (\<forall>r p. response (add_logpoint params message (Reply r) s) = Content p \<longrightarrow>
         p = BreakpointPayload (breakpointId r) (locations r) True)"
proof (intro conjI allI impI)
  fix cmd
  assume "Sent cmd \<in> set (effects (set_breakpoint path ln target s))"
  then show "cmd = SetBreakpointByUrl (Some (file_url path)) None (ln - 1) 0 None"
    by (rule set_breakpoint_sent)
next
  fix cmd
  assume "Sent cmd \<in> set (effects (set_breakpoint_condition params cond target s))"
  then show "\<exists>u r c. cmd = SetBreakpointByUrl u r (line params - 1) c (Some cond)"
    by (rule set_breakpoint_condition_sent)
next
  fix cmd
  assume "Sent cmd \<in> set (effects (add_logpoint params message target s))"
  then show "\<exists>u r c. cmd = SetBreakpointByUrl u r (line params - 1) c (Some (toCondition message))"
    by (rule add_logpoint_sent)
next
  fix cmd
  assume "Sent cmd \<in> set (effects (continue_to_location path ln col race s))"
  then show "\<exists>sid. cmd = ContinueToLocation sid (ln - 1)
                            ((case col of None \<Rightarrow> 1 | Some c \<Rightarrow> c) - 1)"
    by (rule continue_to_location_sent)
next
  show "frames_from (response (perform call s)) (source_frames call s)"
    by (rule perform_frames)
next
  fix r p
  assume "response (set_breakpoint_condition params cond (Reply r) s) = Content p"
  then show "p = BreakpointPayload (breakpointId r) (locations r) False"
    by (rule breakpoint_locations_passed)
next
  fix r p
  assume "response (add_logpoint params message (Reply r) s) = Content p"
  then show "p = BreakpointPayload (breakpointId r) (locations r) True"
    by (rule breakpoint_locations_passed)
qed

theorem coordinates_at_the_boundary_witness:
  "Sent (SetBreakpointByUrl (Some ''file:///app/sample.js'') None 2 5 (Some ''x > 0''))
     \<in> set (effects (set_breakpoint_condition column_five ''x > 0'' (Reply sample_bp_reply)
                sample_started))
   \<and> line column_five - 1 = 2
   \<and> response_frames (response (perform (CallGetPauseInfo None) sample_started))
       = [\<lparr>fs_functionName = Some ''add'', fs_url = ''file:///sample.js'', fs_line = 3,
           fs_column = 5\<rparr>]
   \<and> source_frames (CallGetPauseInfo None) sample_started = [sample_frame]
   \<and> converted \<lparr>fs_functionName = Some ''add'', fs_url = ''file:///sample.js'', fs_line = 3,
         fs_column = 5\<rparr> sample_frame"
proof -
  have sent: "Sent (SetBreakpointByUrl (Some ''file:///app/sample.js'') None 2 5 (Some ''x > 0''))
     \<in> set (effects (set_breakpoint_condition column_five ''x > 0'' (Reply sample_bp_reply)
                sample_started))"
    by code_simp
  have ln: "line column_five - 1 = 2" by code_simp
  have frames: "response_frames (response (perform (CallGetPauseInfo None) sample_started))
       = [\<lparr>fs_functionName = Some ''add'', fs_url = ''file:///sample.js'', fs_line = 3,
           fs_column = 5\<rparr>]"
    by code_simp
  have src: "source_frames (CallGetPauseInfo None) sample_started = [sample_frame]"
    by code_simp
  from coordinates_at_the_boundary [where s = sample_started and call = "CallGetPauseInfo None"]
  have fr: "frames_from (response (perform (CallGetPauseInfo None) sample_started))
          (source_frames (CallGetPauseInfo None) sample_started)" by blast
  from fr [unfolded frames_from_def frames src]
  have "converted \<lparr>fs_functionName = Some ''add'', fs_url = ''file:///sample.js'',
               fs_line = 3, fs_column = 5\<rparr> sample_frame"
    by simp
  with sent ln frames src show ?thesis by simp
qed

end
